theory Spec2Isabelle
  imports Complex_Main "HOL-Library.AList"
begin

section \<open>Values shared by the notebooks\<close>

text \<open>
  Python's \<open>str\<close> is modelled as \<open>string\<close>, a \<open>char\<close> being one code point
  below 256 (Latin-1); the marker strings of the notebooks (\<open>gepr\<close>\<open>u\<close>-umlaut\<open>ft\<close>,
  \<open>qualit\<close>\<open>a\<close>-umlaut\<open>tsgesichert\<close>) lie in that range.

  A Python float is \<open>NaN\<close>, an infinity, or a finite value named by the
  rational it denotes. No arithmetic is done on floats by the code modelled here; they
  are only produced by \<open>float()\<close>, compared with zero and tested for NaN.
\<close>

datatype fl = NaN | PInf | NInf | Fin rat

datatype date = Date nat nat nat

text \<open>
  One cell of a pandas frame of dtype object: a null (\<open>NaN\<close> or \<open>None\<close>:
  \<open>isnull\<close> is true of both), a string, a number (Python's \<open>int\<close>,
  \<open>float\<close> and \<open>bool\<close> compare and hash by numeric value), or a
  \<open>datetime\<close> (its date, and its time of day).
\<close>

datatype cell = Null | Text string | Num rat | Stamp date nat

datatype exn =
  KeyError | IndexError | ValueError | TypeError | AttributeError
  | FileNotFoundError | ParserError | EmptyDataError

record frame =
  columns :: "cell list"
  rows :: "cell list list"

definition cell_at :: "cell list \<Rightarrow> nat \<Rightarrow> cell" where
  "cell_at r j = (if j < length r then r ! j else Null)"

definition isnull :: "cell \<Rightarrow> bool" where
  "isnull c = (c = Null)"

text \<open>\<open>str.lower()\<close> and \<open>str.strip()\<close> on code points below 256.\<close>

definition lower_char :: "char \<Rightarrow> char" where
  "lower_char c =
     (let n = (of_char c :: nat)
      in if (65 \<le> n \<and> n \<le> 90) \<or> (192 \<le> n \<and> n \<le> 222 \<and> n \<noteq> 215)
         then char_of (n + 32) else c)"

definition lower :: "string \<Rightarrow> string" where
  "lower s = map lower_char s"

definition isspace :: "char \<Rightarrow> bool" where
  "isspace c = ((of_char c :: nat) \<in> {9, 10, 11, 12, 13, 28, 29, 30, 31, 32, 133, 160})"

definition strip :: "string \<Rightarrow> string" where
  "strip s = rev (dropWhile isspace (rev (dropWhile isspace s)))"

text \<open>
  A column of a result frame holds cells, dates, floats or booleans; a result frame is
  its columns in order, each with its name. A dict literal keeps the place of a key that
  occurs twice and the value given last.
\<close>

datatype date_entry = OnDate date | Parsed string

datatype val = VCell cell | VDate date_entry | VFloat fl | VBool bool

type_synonym tseries = "(string \<times> val list) list"

definition py_dict :: "('k \<times> 'v) list \<Rightarrow> ('k \<times> 'v) list" where
  "py_dict kvs = fold (\<lambda>(k, v) d. AList.update k v d) kvs []"

definition empty_frame :: "string list \<Rightarrow> tseries" where
  "empty_frame names = map (\<lambda>n. (n, [])) names"

definition col_names :: "tseries \<Rightarrow> string list" where
  "col_names t = map fst t"

definition nrows :: "tseries \<Rightarrow> nat" where
  "nrows t = (case t of [] \<Rightarrow> 0 | (n, c) # _ \<Rightarrow> length c)"

text \<open>
  \<open>Series.astype(float)\<close> on one cell of an object column: a null becomes NaN, a number
  its float, a string what \<open>float()\<close> makes of it (\<open>pyfloat\<close>, \<open>None\<close> where
  \<open>float()\<close> raises \<open>ValueError\<close>), a datetime raises \<open>TypeError\<close>.
\<close>

definition astype_float :: "(string \<Rightarrow> fl option) \<Rightarrow> cell \<Rightarrow> exn + fl" where
  "astype_float pyfloat c =
     (case c of
        Null \<Rightarrow> Inr NaN
      | Num q \<Rightarrow> Inr (Fin q)
      | Text s \<Rightarrow> (case pyfloat s of None \<Rightarrow> Inl ValueError | Some v \<Rightarrow> Inr v)
      | Stamp d t \<Rightarrow> Inl TypeError)"

text \<open>A list comprehension whose body may raise: the first exception ends it.\<close>

fun mapM :: "('a \<Rightarrow> exn + 'b) \<Rightarrow> 'a list \<Rightarrow> exn + 'b list" where
  "mapM f [] = Inr []"
| "mapM f (x # xs) =
     (case f x of
        Inl e \<Rightarrow> Inl e
      | Inr y \<Rightarrow> (case mapM f xs of Inl e \<Rightarrow> Inl e | Inr ys \<Rightarrow> Inr (y # ys)))"

section \<open>preprocess\_de4: \<open>parse_dirty_dataframe\<close>\<close>

subsection \<open>The pandas operations the function uses\<close>

text \<open>\<open>df.iloc[lo:up, :]\<close> for \<open>0 \<le> lo\<close>, \<open>0 \<le> up\<close>.\<close>

definition iloc_rows :: "nat \<Rightarrow> nat \<Rightarrow> frame \<Rightarrow> frame" where
  "iloc_rows lo up f = f\<lparr>rows := take (up - lo) (drop lo (rows f))\<rparr>"

text \<open>\<open>df.iloc[:, :k]\<close>.\<close>

definition iloc_cols :: "nat \<Rightarrow> frame \<Rightarrow> frame" where
  "iloc_cols k f = \<lparr>columns = take k (columns f), rows = map (take k) (rows f)\<rparr>"

text \<open>
  \<open>dropna(axis=1, how='all')\<close> keeps the columns with a cell that is not null, and
  \<open>dropna(axis=0, how='all')\<close> the rows with one: a frame of no rows loses every column,
  a row of no columns is dropped.
\<close>

definition kept_cols :: "frame \<Rightarrow> nat list" where
  "kept_cols f =
     filter (\<lambda>j. list_ex (\<lambda>r. \<not> isnull (cell_at r j)) (rows f)) [0..<length (columns f)]"

definition dropna_cols :: "frame \<Rightarrow> frame" where
  "dropna_cols f =
     (let ks = kept_cols f
      in \<lparr>columns = map (\<lambda>j. columns f ! j) ks,
          rows = map (\<lambda>r. map (cell_at r) ks) (rows f)\<rparr>)"

definition dropna_rows :: "frame \<Rightarrow> frame" where
  "dropna_rows f = f\<lparr>rows := filter (\<lambda>r. \<not> list_all isnull r) (rows f)\<rparr>"

text \<open>
  \<open>block.set_index(0)\<close>: the column labelled \<open>0\<close> becomes the index and leaves the
  frame; \<open>KeyError\<close> when no column has that label. The result is the index and the frame
  of the other columns.
\<close>

fun find_index :: "'a \<Rightarrow> 'a list \<Rightarrow> nat option" where
  "find_index x [] = None"
| "find_index x (y # ys) =
     (if x = y then Some 0 else map_option Suc (find_index x ys))"

definition drop_nth :: "nat \<Rightarrow> 'a list \<Rightarrow> 'a list" where
  "drop_nth j xs = take j xs @ drop (Suc j) xs"

definition set_index :: "cell \<Rightarrow> frame \<Rightarrow> exn + (cell list \<times> frame)" where
  "set_index lbl f =
     (case find_index lbl (columns f) of
        None \<Rightarrow> Inl KeyError
      | Some j \<Rightarrow>
          Inr (map (\<lambda>r. cell_at r j) (rows f),
               \<lparr>columns = drop_nth j (columns f), rows = map (drop_nth j) (rows f)\<rparr>))"

text \<open>
  \<open>.T\<close> of an indexed frame: one row for each column, and the index as column labels.
\<close>

definition transpose_indexed :: "cell list \<times> frame \<Rightarrow> frame" where
  "transpose_indexed p =
     (case p of (idx, f) \<Rightarrow>
        \<lparr>columns = idx,
         rows = map (\<lambda>j. map (\<lambda>r. cell_at r j) (rows f)) [0..<length (columns f)]\<rparr>)"

text \<open>
  \<open>to_dict(orient='records')\<close>: one dict for each row, from column label to cell; of
  two columns with one label the later one gives the value. A dict is the list of its
  items in order of insertion, with one item for each key; a null label is one key, the
  one object \<open>np.nan\<close> that an object column holds for its empty cells.
\<close>

type_synonym pydict = "(cell \<times> cell) list"

definition to_dict_records :: "frame \<Rightarrow> pydict list" where
  "to_dict_records f = map (\<lambda>r. AList.updates (columns f) r []) (rows f)"

text \<open>\<open>block.iloc[:, k]\<close>: \<open>IndexError\<close> when the frame has no column \<open>k\<close>.\<close>

definition iloc_col :: "nat \<Rightarrow> frame \<Rightarrow> exn + cell list" where
  "iloc_col k f =
     (if k < length (columns f) then Inr (map (\<lambda>r. cell_at r k) (rows f)) else Inl IndexError)"

text \<open>
  \<open>block.columns = block.iloc[0, :]\<close> followed by
  \<open>block.drop(block.index[0], axis=0, inplace=True)\<close>: the first row becomes the header
  and leaves the frame; \<open>IndexError\<close> when there is no row. Row labels are those of a
  \<open>RangeIndex\<close>, so only the first row carries the first label.
\<close>

definition header_from_first_row :: "frame \<Rightarrow> exn + frame" where
  "header_from_first_row f =
     (case rows f of
        [] \<Rightarrow> Inl IndexError
      | r # rs \<Rightarrow> Inr \<lparr>columns = r, rows = rs\<rparr>)"

text \<open>
  \<open>block.iloc[0, 0] = 'CRS'\<close>: \<open>IndexError\<close> when the frame has no row or no column.
\<close>

definition set_crs :: "frame \<Rightarrow> exn + frame" where
  "set_crs f =
     (case rows f of
        [] \<Rightarrow> Inl IndexError
      | r # rs \<Rightarrow>
          (if columns f = [] then Inl IndexError
           else Inr (f\<lparr>rows := (r[0 := Text ''CRS'']) # rs\<rparr>)))"

subsection \<open>The function\<close>

text \<open>Exceptions propagate: the first \<open>Inl\<close> ends the computation.\<close>

definition bnd :: "exn + 'a \<Rightarrow> ('a \<Rightarrow> exn + 'b) \<Rightarrow> exn + 'b" where
  "bnd m f = (case m of Inl e \<Rightarrow> Inl e | Inr x \<Rightarrow> f x)"

text \<open>
  The warnings of the function: \<open>NoID n\<close> is ``Block #n: No ID found. This will skip the
  data for this station.'' and \<open>BadShape n\<close> is ``Block #n did not yield the correct
  shape. Please check the file. Skipping.'' They are the warnings of the function's own
  \<open>warnings.warn\<close> calls; what pandas may warn of is not modelled.
\<close>

datatype diag = NoID nat | BadShape nat

text \<open>
  The local variables of the function. \<open>ID\<close> holds the cell whose \<open>str()\<close> the code
  stores: the code only tests it against \<open>None\<close>.
\<close>

record pstate =
  ID :: "cell option"
  base :: pydict
  loc :: pydict
  co :: pydict
  dat :: "tseries option"
  warns :: "diag list"

definition init_state :: pstate where
  "init_state = \<lparr>ID = None, base = [], loc = [], co = [], dat = None, warns = []\<rparr>"

text \<open>
  \<open>df[df.isnull().all(axis=1) == True].index.to_list()\<close>: the labels of the rows whose
  cells are all null. The frame comes from \<open>ExcelFile.parse\<close> and has a
  \<open>RangeIndex\<close>: labels are positions.
\<close>

definition null_idx :: "frame \<Rightarrow> nat list" where
  "null_idx df = filter (\<lambda>i. list_all isnull (rows df ! i)) [0..<length (rows df)]"

text \<open>\<open>zip([0] + null_idx, null_idx + [len(df)])\<close>.\<close>

definition bounds :: "frame \<Rightarrow> (nat \<times> nat) list" where
  "bounds df = zip (0 # null_idx df) (null_idx df @ [length (rows df)])"

text \<open>The blocks the loop visits, in order: \<open>df.iloc[lo:up, :]\<close> for each pair.\<close>

definition blocks :: "frame \<Rightarrow> frame list" where
  "blocks df = map (\<lambda>(lo, up). iloc_rows lo up df) (bounds df)"

text \<open>The marker \<open>'gepr\<close>\<open>u\<close>-umlaut\<open>ft'\<close>.\<close>

definition geprueft :: string where
  "geprueft = ''gepr'' @ [CHR 0xFC] @ ''ft''"

text \<open>
  \<open>d.date() if isinstance(d, dt) else parse(d)\<close>: \<open>dateparser.parse\<close> raises
  \<open>TypeError\<close> on what is no string; what it makes of a string (a datetime or
  \<open>None\<close>) is kept as \<open>Parsed\<close>.
\<close>

definition date_of :: "cell \<Rightarrow> exn + date_entry" where
  "date_of c =
     (case c of
        Stamp d t \<Rightarrow> Inr (OnDate d)
      | Text s \<Rightarrow> Inr (Parsed s)
      | Null \<Rightarrow> Inl TypeError
      | Num q \<Rightarrow> Inl TypeError)"

text \<open>
  \<open>fl.strip().lower() == 'gepr\<close>\<open>u\<close>-umlaut\<open>ft'\<close>: \<open>AttributeError\<close> on what is no
  string.
\<close>

definition flag_of :: "cell \<Rightarrow> exn + bool" where
  "flag_of c =
     (case c of
        Text s \<Rightarrow> Inr (lower (strip s) = geprueft)
      | Null \<Rightarrow> Inl AttributeError
      | Num q \<Rightarrow> Inl AttributeError
      | Stamp d t \<Rightarrow> Inl AttributeError)"

text \<open>The branch \<open>i == 3 and not skip_data\<close>, once \<open>ID\<close> is known.\<close>

definition data_block :: "(string \<Rightarrow> fl option) \<Rightarrow> string \<Rightarrow> frame \<Rightarrow> exn + tseries" where
  "data_block pyfloat variable block =
     bnd (header_from_first_row (dropna_cols (dropna_rows block))) (\<lambda>b.
     bnd (iloc_col 0 b) (\<lambda>c0.
     bnd (mapM date_of c0) (\<lambda>dates.
     bnd (iloc_col 1 b) (\<lambda>c1.
     bnd (mapM (astype_float pyfloat) c1) (\<lambda>vals.
     bnd (iloc_col 3 b) (\<lambda>c3.
     bnd (mapM flag_of c3) (\<lambda>flags.
       Inr (py_dict [(''date'', map VDate dates),
                     (lower variable, map VFloat vals),
                     (''flag'', map VBool flags)]))))))))"

text \<open>The branches \<open>i == 0 or i == 1\<close> and \<open>i == 2\<close>.\<close>

definition kv_records :: "frame \<Rightarrow> exn + pydict list" where
  "kv_records block =
     bnd (set_index (Num 0) (dropna_rows (dropna_cols (iloc_cols 2 block)))) (\<lambda>p.
       Inr (to_dict_records (transpose_indexed p)))"

definition crs_records :: "frame \<Rightarrow> exn + pydict list" where
  "crs_records block =
     bnd (set_crs (dropna_rows (dropna_cols block))) (\<lambda>b.
     bnd (header_from_first_row b) (\<lambda>b'.
       Inr (to_dict_records b')))"

definition header_blocks :: "nat \<Rightarrow> frame \<Rightarrow> pstate \<Rightarrow> exn + pstate" where
  "header_blocks i block st =
     (if i = 0 \<or> i = 1 then
        bnd (kv_records block) (\<lambda>recs.
          if length recs > 0 then
            (if i = 0 then
               (case map_of (hd recs) (Text ''ID'') of
                  Some v \<Rightarrow> Inr (st\<lparr>ID := Some v, base := hd recs\<rparr>)
                | None \<Rightarrow> Inr (st\<lparr>base := hd recs, warns := warns st @ [NoID (i + 1)]\<rparr>))
             else Inr (st\<lparr>loc := hd recs\<rparr>))
          else Inr (st\<lparr>warns := warns st @ [BadShape (i + 1)]\<rparr>))
      else if i = 2 then
        bnd (crs_records block) (\<lambda>recs.
          if length recs > 0 then Inr (st\<lparr>co := hd recs\<rparr>)
          else Inr (st\<lparr>warns := warns st @ [BadShape (i + 1)]\<rparr>))
      else Inr st)"

text \<open>
  One pass of the loop body. After the data branch the later \<open>if\<close>/\<open>elif\<close> is still
  evaluated, with \<open>i = 3\<close>.
\<close>

definition block_step ::
  "(string \<Rightarrow> fl option) \<Rightarrow> string \<Rightarrow> bool \<Rightarrow> frame \<Rightarrow> nat \<Rightarrow> nat \<times> nat \<Rightarrow> pstate \<Rightarrow> exn + pstate" where
  "block_step pyfloat variable skip_data df i b st =
     (let block = iloc_rows (fst b) (snd b) df
      in if i = 3 \<and> \<not> skip_data then
           (if ID st = None then Inr st
            else bnd (data_block pyfloat variable block) (\<lambda>d.
                   header_blocks i block (st\<lparr>dat := Some d\<rparr>)))
         else header_blocks i block st)"

fun run_blocks ::
  "(string \<Rightarrow> fl option) \<Rightarrow> string \<Rightarrow> bool \<Rightarrow> frame \<Rightarrow> nat \<Rightarrow> (nat \<times> nat) list \<Rightarrow> pstate \<Rightarrow> exn + pstate" where
  "run_blocks pyfloat variable skip_data df i [] st = Inr st"
| "run_blocks pyfloat variable skip_data df i (b # bs) st =
     bnd (block_step pyfloat variable skip_data df i b st)
         (run_blocks pyfloat variable skip_data df (Suc i) bs)"

text \<open>
  \<open>{**base, **loc, **co}\<close>, and \<open>None\<close> for the dict without keys. The result is
  \<open>(meta, dat)\<close>, and the warnings given on the way.
\<close>

definition merge_meta :: "pydict \<Rightarrow> pydict \<Rightarrow> pydict \<Rightarrow> pydict" where
  "merge_meta b l c = py_dict (b @ l @ c)"

definition parse_dirty_dataframe ::
  "(string \<Rightarrow> fl option) \<Rightarrow> frame \<Rightarrow> string \<Rightarrow> bool
     \<Rightarrow> exn + (pydict option \<times> tseries option \<times> diag list)" where
  "parse_dirty_dataframe pyfloat df variable skip_data =
     bnd (run_blocks pyfloat variable skip_data df 0 (bounds df) init_state) (\<lambda>st.
       let meta = merge_meta (base st) (loc st) (co st)
       in Inr (if length meta = 0 then None else Some meta, dat st, warns st))"

section \<open>preprocess\_de2: \<open>get_file_from_zip\<close> and \<open>extract_file\<close>\<close>

text \<open>
  A station number is an \<open>int\<close> or a \<open>str\<close>; \<open>str(nr)\<close> writes an \<open>int\<close> in
  decimal and leaves a \<open>str\<close> as it is.
\<close>

datatype nr = NrInt int | NrStr string

fun str_nat :: "nat \<Rightarrow> string" where
  "str_nat n =
     (if n < 10 then [char_of (48 + n)]
      else str_nat (n div 10) @ [char_of (48 + n mod 10)])"

declare str_nat.simps [simp del]

definition str_int :: "int \<Rightarrow> string" where
  "str_int i = (if i < 0 then ''-'' @ str_nat (nat (- i)) else str_nat (nat i))"

definition str_nr :: "nr \<Rightarrow> string" where
  "str_nr n = (case n of NrInt i \<Rightarrow> str_int i | NrStr s \<Rightarrow> s)"

text \<open>
  The archive: its members in the order of \<open>z.filelist\<close>, each the file name and the
  lines of the file. \<open>z.open(name)\<close> gives the member added last under that name.
\<close>

type_synonym archive = "(string \<times> string list) list"

definition basename :: "string \<Rightarrow> string" where
  "basename p = rev (takeWhile (\<lambda>c. c \<noteq> CHR ''/'') (rev p))"

definition id_only :: "string \<Rightarrow> string" where
  "id_only filename = takeWhile (\<lambda>c. c \<noteq> CHR ''.'') (basename filename)"

definition get_filename_mapping :: "archive \<Rightarrow> (string \<times> string) list" where
  "get_filename_mapping z = fold (\<lambda>f m. AList.update (id_only (fst f)) (fst f) m) z []"

definition zip_open :: "archive \<Rightarrow> string \<Rightarrow> string list option" where
  "zip_open z fname = map_of (rev z) fname"

text \<open>
  The parameter \<open>not_exists = 'raise'\<close>: \<open>None\<close> is the call that leaves it out. In the
  \<open>else\<close> branch of the search the code builds a \<open>FileNotFoundError\<close> and does not
  raise it, so \<open>fname\<close> stays \<open>str(nr)\<close>. The result is the open file, or \<open>None\<close>.
\<close>

definition policy :: "string option \<Rightarrow> string" where
  "policy not_exists = (case not_exists of None \<Rightarrow> ''raise'' | Some p \<Rightarrow> p)"

definition search_file :: "archive \<Rightarrow> string \<Rightarrow> string" where
  "search_file z fname =
     (let fmap = get_filename_mapping z
      in if fname \<in> set (map snd fmap) then fname
         else (case map_of fmap fname of Some f \<Rightarrow> f | None \<Rightarrow> fname))"

definition get_file_from_zip :: "nr \<Rightarrow> archive \<Rightarrow> string option \<Rightarrow> exn + string list option" where
  "get_file_from_zip n z not_exists =
     (let fname = search_file z (str_nr n)
      in if fname \<notin> set (map fst z) then
           (if policy not_exists = ''raise'' then Inl FileNotFoundError else Inr None)
         else Inr (zip_open z fname))"

text \<open>\<open>row.split(' ')\<close>, and \<open>float(row.split(' ')[1]) < 0\<close>.\<close>

fun split_on :: "char \<Rightarrow> string \<Rightarrow> string list" where
  "split_on c [] = [[]]"
| "split_on c (x # xs) =
     (if x = c then [] # split_on c xs
      else (case split_on c xs of
              [] \<Rightarrow> [[x]]
            | w # ws \<Rightarrow> (x # w) # ws))"

definition lt0 :: "fl \<Rightarrow> bool" where
  "lt0 v = (case v of NInf \<Rightarrow> True | Fin q \<Rightarrow> q < 0 | NaN \<Rightarrow> False | PInf \<Rightarrow> False)"

definition faulty :: "(string \<Rightarrow> fl option) \<Rightarrow> string \<Rightarrow> exn + bool" where
  "faulty pyfloat row =
     (case split_on CHR '' '' row of
        a # b # rest \<Rightarrow>
          (case pyfloat b of None \<Rightarrow> Inl ValueError | Some v \<Rightarrow> Inr (lt0 v))
      | _ \<Rightarrow> Inl IndexError)"

text \<open>
  The warnings of \<open>extract_file\<close>: \<open>FaultyRows nr is\<close> is
  ``nr;FormatError;Faulty rows in nr;[is]'', \<open>ParserFailed nr e\<close> is
  ``nr;ParserError;Nr: nr failed alltogether;str(e)'' and \<open>ThreeColumns nr\<close> is
  ``nr;FormatError;Nr: nr raw file has only 3 columns;Assuming that 'releaselevel' is
  missing. Please check.''
\<close>

datatype diag2 = FaultyRows nr "nat list" | ParserFailed nr exn | ThreeColumns nr

text \<open>
  The fallback of \<open>except ParserError\<close>, on the lines of the file: the rows after the
  first eight that are not faulty are read again; \<open>read_csv\<close> is
  \<open>pd.read_csv(..., sep=' ', decimal=',', header=None)\<close> on lines of data.
\<close>

definition kept_rows :: "string list \<Rightarrow> bool list \<Rightarrow> string list" where
  "kept_rows data faulty_rows = map fst (filter (\<lambda>p. \<not> snd p) (zip data faulty_rows))"

definition faulty_positions :: "bool list \<Rightarrow> nat list" where
  "faulty_positions faulty_rows =
     map (\<lambda>p. fst p + 8) (filter snd (zip [0..<length faulty_rows] faulty_rows))"

definition fallback ::
  "(string list \<Rightarrow> exn + frame) \<Rightarrow> (string \<Rightarrow> fl option) \<Rightarrow> nr \<Rightarrow> string list
     \<Rightarrow> exn + (frame \<times> diag2 list)" where
  "fallback read_csv pyfloat n raw =
     bnd (mapM (faulty pyfloat) (drop 8 raw)) (\<lambda>faulty_rows.
       case read_csv (kept_rows (drop 8 raw) faulty_rows) of
         Inr parsed \<Rightarrow> Inr (parsed, [FaultyRows n (faulty_positions faulty_rows)])
       | Inl e \<Rightarrow>
           Inr (\<lparr>columns = [Text ''x1'', Text ''x2'', Text ''x3'', Text ''x4''], rows = []\<rparr>,
                [ParserFailed n e]))"

text \<open>
  The renaming of the columns and the frame returned. \<open>strp\<close> is
  \<open>dt.strptime(str(t)[:8], '%Y%m%d')\<close>, \<open>None\<close> where it raises \<open>ValueError\<close>;
  giving four names to a frame that has not four columns raises \<open>ValueError\<close>.
\<close>

definition strptime :: "(cell \<Rightarrow> date option) \<Rightarrow> cell \<Rightarrow> exn + val" where
  "strptime strp t = (case strp t of None \<Rightarrow> Inl ValueError | Some d \<Rightarrow> Inr (VDate (OnDate d)))"

definition rename_and_build ::
  "(cell \<Rightarrow> date option) \<Rightarrow> nr \<Rightarrow> string \<Rightarrow> frame \<times> diag2 list \<Rightarrow> exn + (tseries \<times> diag2 list)" where
  "rename_and_build strp n variable p =
     (case p of (raw, ws) \<Rightarrow>
        bnd (if length (columns raw) = 3 then Inr (ws @ [ThreeColumns n])
             else if length (columns raw) = 4 then Inr ws
             else Inl ValueError) (\<lambda>ws'.
        bnd (mapM (strptime strp) (map (\<lambda>r. cell_at r 0) (rows raw))) (\<lambda>dates.
          Inr (py_dict [(''date'', dates),
                        (lower variable, map (\<lambda>r. VCell (cell_at r 1)) (rows raw)),
                        (''flag'', map (\<lambda>r. VCell Null) (rows raw))],
               ws'))))"

definition extract_file_de2 ::
  "(string list \<Rightarrow> exn + frame) \<Rightarrow> (string \<Rightarrow> fl option) \<Rightarrow> (cell \<Rightarrow> date option)
     \<Rightarrow> nr \<Rightarrow> string \<Rightarrow> archive \<Rightarrow> string option \<Rightarrow> exn + (tseries \<times> diag2 list)" where
  "extract_file_de2 read_csv pyfloat strp n variable z not_exists =
     bnd (get_file_from_zip n z (Some (policy not_exists))) (\<lambda>enc_content.
       case enc_content of
         None \<Rightarrow> Inr (empty_frame [''date'', lower variable, ''flag''], [])
       | Some raw \<Rightarrow>
           bnd (case read_csv (drop 8 raw) of
                  Inr parsed \<Rightarrow> Inr (parsed, [])
                | Inl e \<Rightarrow>
                    (if e = ParserError then fallback read_csv pyfloat n raw else Inl e))
               (rename_and_build strp n variable))"

section \<open>preprocess\_def: \<open>extract_file\<close>\<close>

text \<open>\<open>os.path.join\<close> of POSIX paths.\<close>

definition path_join :: "string \<Rightarrow> string \<Rightarrow> string" where
  "path_join a b =
     (if b \<noteq> [] \<and> hd b = CHR ''/'' then b
      else if a = [] \<or> last a = CHR ''/'' then a @ b
      else a @ ''/'' @ b)"

text \<open>The marker \<open>'qualit\<close>\<open>a\<close>-umlaut\<open>tsgesichert'\<close>.\<close>

definition qualitaetsgesichert :: string where
  "qualitaetsgesichert = ''qualit'' @ [CHR 0xE4] @ ''tsgesichert''"

definition flag_def :: "cell \<Rightarrow> exn + val" where
  "flag_def f =
     (case f of
        Text s \<Rightarrow> Inr (VBool (lower s = qualitaetsgesichert))
      | Null \<Rightarrow> Inl AttributeError
      | Num q \<Rightarrow> Inl AttributeError
      | Stamp d t \<Rightarrow> Inl AttributeError)"

text \<open>
  \<open>exists\<close> is \<open>os.path.exists\<close> and \<open>read_csv\<close> is
  \<open>pd.read_csv(path, encoding="latin1", sep=";", decimal=",", parse_dates=[0],
  dayfirst=True)\<close>. Naming three columns raises \<open>ValueError\<close> on a frame that has not
  three.
\<close>

definition csv_path :: "nr \<Rightarrow> string \<Rightarrow> string" where
  "csv_path n base_path =
     (let nr0 = str_nr n;
          nr1 = (if CHR ''.'' \<in> set nr0 then filter (\<lambda>c. c \<noteq> CHR ''.'') nr0 else nr0)
      in path_join (path_join base_path ''Q'') (nr1 @ ''.csv''))"

definition extract_file_def ::
  "(string \<Rightarrow> bool) \<Rightarrow> (string \<Rightarrow> exn + frame) \<Rightarrow> (string \<Rightarrow> fl option)
     \<Rightarrow> nr \<Rightarrow> string \<Rightarrow> exn + tseries" where
  "extract_file_def exists read_csv pyfloat n base_path =
     (let path = csv_path n base_path
      in if \<not> exists path then Inr (empty_frame [''date'', ''q'', ''flag''])
         else
           bnd (read_csv path) (\<lambda>df.
             if length (columns df) \<noteq> 3 then Inl ValueError
             else
               bnd (mapM (astype_float pyfloat) (map (\<lambda>r. cell_at r 1) (rows df))) (\<lambda>q.
                 if list_all (\<lambda>v. v = NaN) q then Inr (empty_frame [''date'', ''q'', ''flag''])
                 else
                   bnd (mapM flag_def (map (\<lambda>r. cell_at r 2) (rows df))) (\<lambda>flags.
                     Inr [(''date'', map (\<lambda>r. VCell (cell_at r 0)) (rows df)),
                          (''q'', map VFloat q),
                          (''flag'', flags)]))))"

section \<open>Notions used in the proofs\<close>

text \<open>
  The block splitter on the rows alone: the row indices of the fully-empty rows, the pairs
  of bounds, and the rows of each block.
\<close>

definition cut_rows :: "cell list list \<Rightarrow> (nat \<times> nat) \<Rightarrow> cell list list" where
  "cut_rows rs b = take (snd b - fst b) (drop (fst b) rs)"

definition nidx :: "cell list list \<Rightarrow> nat list" where
  "nidx rs = filter (\<lambda>i. list_all isnull (rs ! i)) [0..<length rs]"

definition bnds :: "cell list list \<Rightarrow> (nat \<times> nat) list" where
  "bnds rs = zip (0 # nidx rs) (nidx rs @ [length rs])"

definition cuts :: "cell list list \<Rightarrow> cell list list list" where
  "cuts rs = map (cut_rows rs) (bnds rs)"

text \<open>
  Blocks cut before each fully-empty row: no row of the first block is fully empty, and
  every later block starts with a fully-empty row and has no other.
\<close>

definition shaped :: "cell list list list \<Rightarrow> bool" where
  "shaped bs \<longleftrightarrow>
     bs \<noteq> [] \<and> (\<forall>r \<in> set (hd bs). \<not> list_all isnull r) \<and>
     (\<forall>b \<in> set (tl bs).
        b \<noteq> [] \<and> list_all isnull (hd b) \<and> (\<forall>r \<in> set (tl b). \<not> list_all isnull r))"

text \<open>
  The block of a pair of bounds, and what the branches \<open>i = 0\<close>, \<open>i = 1\<close> and \<open>i = 2\<close> of
  \<open>header_blocks\<close> do to the state with the records of their block.
\<close>

definition blk :: "frame \<Rightarrow> nat \<times> nat \<Rightarrow> frame" where
  "blk df b = iloc_rows (fst b) (snd b) df"

definition upd0 :: "pydict list \<Rightarrow> pstate \<Rightarrow> pstate" where
  "upd0 recs st =
     (case recs of
        [] \<Rightarrow> st\<lparr>warns := warns st @ [BadShape 1]\<rparr>
      | r # _ \<Rightarrow>
          (case map_of r (Text ''ID'') of
             Some x \<Rightarrow> st\<lparr>ID := Some x, base := r\<rparr>
           | None \<Rightarrow> st\<lparr>base := r, warns := warns st @ [NoID 1]\<rparr>))"

definition upd1 :: "pydict list \<Rightarrow> pstate \<Rightarrow> pstate" where
  "upd1 recs st =
     (case recs of [] \<Rightarrow> st\<lparr>warns := warns st @ [BadShape 2]\<rparr> | r # _ \<Rightarrow> st\<lparr>loc := r\<rparr>)"

definition upd2 :: "pydict list \<Rightarrow> pstate \<Rightarrow> pstate" where
  "upd2 recs st =
     (case recs of [] \<Rightarrow> st\<lparr>warns := warns st @ [BadShape 3]\<rparr> | r # _ \<Rightarrow> st\<lparr>co := r\<rparr>)"

text \<open>
  The dict a header block yields: the first record of block \<open>i\<close>, and the empty dict when
  the grid has no block \<open>i\<close> or the block has no record.
\<close>

definition first_record :: "exn + pydict list \<Rightarrow> pydict" where
  "first_record r = (case r of Inr (d # ds) \<Rightarrow> d | _ \<Rightarrow> [])"

definition recovered :: "frame \<Rightarrow> nat \<Rightarrow> pydict" where
  "recovered df i =
     (if i < length (bounds df)
      then first_record ((if i = 2 then crs_records else kv_records) (blocks df ! i))
      else [])"

text \<open>
  The warnings of the function's own \<open>warnings.warn\<close> calls in a call that returns.
\<close>

definition block_warns :: "frame \<Rightarrow> diag list" where
  "block_warns df =
     (case kv_records (blocks df ! 0) of
        Inr [] \<Rightarrow> [BadShape 1]
      | Inr (r # rs) \<Rightarrow> (if map_of r (Text ''ID'') = None then [NoID 1] else [])
      | Inl e \<Rightarrow> [])
     @ (if 1 < length (blocks df) \<and> kv_records (blocks df ! 1) = Inr [] then [BadShape 2] else [])
     @ (if 2 < length (blocks df) \<and> crs_records (blocks df ! 2) = Inr [] then [BadShape 3] else [])"

text \<open>
  The shapes on which the branches do not raise. For blocks 0 and 1: one of the first two
  columns is labelled 0 and holds a cell that is not null. For block 2: a column holds a
  cell that is not null. For the data block: without its fully-empty rows and columns it
  has a first row of at least four cells, and every later row has a datetime or a string
  in column 0, a cell that \<open>astype(float)\<close> accepts in column 1 and a string in column 3.
\<close>

definition has_key_col :: "frame \<Rightarrow> nat \<Rightarrow> bool" where
  "has_key_col b j \<longleftrightarrow>
     j < length (columns b) \<and> columns b ! j = Num 0 \<and>
     list_ex (\<lambda>r. \<not> isnull (cell_at r j)) (rows b)"

definition kv_ok :: "frame \<Rightarrow> bool" where
  "kv_ok b \<longleftrightarrow> has_key_col b 0 \<or> has_key_col b 1"

definition crs_ok :: "frame \<Rightarrow> bool" where
  "crs_ok b \<longleftrightarrow> kept_cols b \<noteq> []"

definition datelike :: "cell \<Rightarrow> bool" where
  "datelike c = (case c of Text s \<Rightarrow> True | Stamp d t \<Rightarrow> True | Null \<Rightarrow> False | Num q \<Rightarrow> False)"

definition floatable :: "(string \<Rightarrow> fl option) \<Rightarrow> cell \<Rightarrow> bool" where
  "floatable pyfloat c =
     (case c of Text s \<Rightarrow> pyfloat s \<noteq> None | Stamp d t \<Rightarrow> False | Null \<Rightarrow> True | Num q \<Rightarrow> True)"

definition is_text :: "cell \<Rightarrow> bool" where
  "is_text c = (case c of Text s \<Rightarrow> True | Stamp d t \<Rightarrow> False | Null \<Rightarrow> False | Num q \<Rightarrow> False)"

definition data_ok :: "(string \<Rightarrow> fl option) \<Rightarrow> frame \<Rightarrow> bool" where
  "data_ok pyfloat b =
     (case rows (dropna_cols (dropna_rows b)) of
        [] \<Rightarrow> False
      | h # rs \<Rightarrow>
          4 \<le> length h \<and>
          list_all (\<lambda>r. datelike (cell_at r 0) \<and> floatable pyfloat (cell_at r 1)
                       \<and> is_text (cell_at r 3)) rs)"

section \<open>Inputs of the examples\<close>

text \<open>A grid of two columns whose second row is fully empty.\<close>

definition grid_two_blocks :: frame where
  "grid_two_blocks =
     \<lparr>columns = [Num 0, Num 1],
      rows = [[Text ''a'', Null], [Null, Null], [Text ''b'', Null]]\<rparr>"


text \<open>A file of Schleswig-Holstein whose \<open>q\<close> is null or \<open>nan\<close> in every row; no flag cell is a string.\<close>

definition frame_all_nan :: frame where
  "frame_all_nan =
     \<lparr>columns = [Text ''Datum'', Text ''Q'', Text ''Status''],
      rows = [[Text ''01.01.2020'', Null, Null], [Text ''02.01.2020'', Text ''nan'', Null]]\<rparr>"

text \<open>A file of four columns whose \<open>q\<close> is null in every row.\<close>

definition frame_four_columns :: frame where
  "frame_four_columns =
     \<lparr>columns = [Text ''Datum'', Text ''Q'', Text ''Status'', Text ''Bemerkung''],
      rows = [[Text ''01.01.2020'', Null, Text ''ok'', Null],
              [Text ''02.01.2020'', Null, Text ''ok'', Null]]\<rparr>"

text \<open>
  Instances of the library functions for the examples. \<open>pyfloat_ex\<close>
  agrees with \<open>float\<close> on the strings of the examples: decimal integers, \<open>1.23\<close> (the
  double next to it), and \<open>None\<close> for \<open>12,5\<close> and for words. \<open>read_csv_ex\<close> raises
  \<open>ParserError\<close> on a line with more fields than the first line, as the C parser of
  pandas does, and gives the fields as text. \<open>strp_ex\<close> reads eight digits as year, month
  and day. The archives hold one file of eight header lines and the data lines shown.
\<close>

definition is_digit :: "char \<Rightarrow> bool" where
  "is_digit c = (48 \<le> (of_char c :: nat) \<and> (of_char c :: nat) \<le> 57)"

definition num :: "string \<Rightarrow> nat" where
  "num s = foldl (\<lambda>a c. 10 * a + (of_char c - 48)) 0 s"

definition pyfloat_ex :: "string \<Rightarrow> fl option" where
  "pyfloat_ex s =
     (if s = ''1.23'' then Some (Fin (2769713770832855 / 2251799813685248))
      else (case s of
              [] \<Rightarrow> None
            | c # ds \<Rightarrow>
                if c = CHR ''-'' \<and> ds \<noteq> [] \<and> list_all is_digit ds
                  then Some (Fin (- of_nat (num ds)))
                else if list_all is_digit (c # ds) then Some (Fin (of_nat (num (c # ds))))
                else None))"

definition read_csv_ex :: "string list \<Rightarrow> exn + frame" where
  "read_csv_ex ls =
     (case ls of
        [] \<Rightarrow> Inl EmptyDataError
      | l # _ \<Rightarrow>
          (let k = length (split_on CHR '' '' l)
           in if list_ex (\<lambda>x. k < length (split_on CHR '' '' x)) ls then Inl ParserError
              else Inr \<lparr>columns = map (\<lambda>j. Num (of_nat j)) [0..<k],
                        rows = map (\<lambda>x. map Text (split_on CHR '' '' x)) ls\<rparr>))"

definition strp_ex :: "cell \<Rightarrow> date option" where
  "strp_ex t =
     (case t of
        Text s \<Rightarrow>
          (if 8 \<le> length s \<and> list_all is_digit (take 8 s)
           then Some (Date (num (take 4 s)) (num (take 2 (drop 4 s))) (num (take 2 (drop 6 s))))
           else None)
      | _ \<Rightarrow> None)"

definition archive_comma :: archive where
  "archive_comma =
     [(''708.txt'', replicate 8 ''#'' @ [''20200101 12,5 x'', ''20200102 -5 x y z''])]"

definition archive_still_bad :: archive where
  "archive_still_bad =
     [(''708.txt'',
       replicate 8 ''#'' @ [''20200101 -5 x'', ''20200102 3 x'', ''20200103 4 x y z''])]"

definition archive_negative :: archive where
  "archive_negative =
     [(''708.txt'',
       replicate 8 ''#'' @ [''20200101 5 x'', ''20200102 -5 x y z'', ''20200103 7 x''])]"

text \<open>
  Grids of four columns read with \<open>header=None\<close>: one of four blocks whose data block is
  the header row \<open>date, value, status, extra\<close> and one data row; one whose data block has
  three columns that are not empty; one of three blocks that share the key \<open>Name\<close>; and one
  of two columns whose three blocks hold a key and no value.
\<close>

definition grid_well_formed :: frame where
  "grid_well_formed =
     \<lparr>columns = [Num 0, Num 1, Num 2, Num 3],
      rows = [[Text ''ID'', Num 123, Null, Null],
              [Text ''Name'', Text ''Foo'', Null, Null],
              [Null, Null, Null, Null],
              [Text ''Ort'', Text ''Bar'', Null, Null],
              [Null, Null, Null, Null],
              [Text ''EPSG'', Text ''Ost'', Text ''Nord'', Null],
              [Text ''25833'', Num 1, Num 2, Null],
              [Null, Null, Null, Null],
              [Text ''date'', Text ''value'', Text ''status'', Text ''extra''],
              [Text ''2020-01-01'', Text ''1.23'', Text geprueft, Text ''x'']]\<rparr>"

definition grid_three_data_columns :: frame where
  "grid_three_data_columns =
     \<lparr>columns = [Num 0, Num 1, Num 2, Num 3],
      rows = [[Text ''ID'', Num 123, Null, Null],
              [Null, Null, Null, Null],
              [Text ''Ort'', Text ''Bar'', Null, Null],
              [Null, Null, Null, Null],
              [Text ''EPSG'', Text ''Ost'', Text ''Nord'', Null],
              [Text ''25833'', Num 1, Num 2, Null],
              [Null, Null, Null, Null],
              [Text ''date'', Text ''value'', Text ''status'', Null],
              [Text ''2020-01-01'', Text ''1.23'', Text geprueft, Null]]\<rparr>"

definition grid_collision :: frame where
  "grid_collision =
     \<lparr>columns = [Num 0, Num 1, Num 2, Num 3],
      rows = [[Text ''ID'', Num 123, Null, Null],
              [Text ''Name'', Text ''Foo'', Null, Null],
              [Null, Null, Null, Null],
              [Text ''Name'', Text ''Bar'', Null, Null],
              [Null, Null, Null, Null],
              [Text ''EPSG'', Text ''Name'', Null, Null],
              [Text ''25833'', Text ''Baz'', Null, Null]]\<rparr>"

definition grid_no_metadata :: frame where
  "grid_no_metadata =
     \<lparr>columns = [Num 0, Num 1],
      rows = [[Text ''a'', Null], [Null, Null], [Text ''b'', Null], [Null, Null],
              [Text ''c'', Null]]\<rparr>"

section \<open>The block splitter\<close>

lemma zip_shift_snoc:
  "zip (a # xs @ [n]) (xs @ [n, m]) = zip (a # xs) (xs @ [n]) @ [(n, m)]"
proof -
  have "zip ((a # xs) @ [n]) ((xs @ [n]) @ [m]) = zip (a # xs) (xs @ [n]) @ zip [n] [m]"
    by (rule zip_append) simp
  then show ?thesis by simp
qed

lemma zip_shift_last:
  "zip (a # xs) (xs @ [m]) = butlast (zip (a # xs) (xs @ [n])) @ [(last (a # xs), m)]"
  by (induction xs arbitrary: a) auto

lemma nidx_snoc:
  "nidx (rs @ [r]) = nidx rs @ (if list_all isnull r then [length rs] else [])"
  by (auto simp: nidx_def nth_append intro!: filter_cong)

lemma nidx_lt: "i \<in> set (nidx rs) \<Longrightarrow> i < length rs"
  by (simp add: nidx_def)

lemma bnds_snd_le: "b \<in> set (bnds rs) \<Longrightarrow> snd b \<le> length rs"
proof -
  assume "b \<in> set (bnds rs)"
  then have "(fst b, snd b) \<in> set (zip (0 # nidx rs) (nidx rs @ [length rs]))"
    by (simp add: bnds_def)
  then have "snd b \<in> set (nidx rs @ [length rs])"
    by (rule set_zip_rightD)
  then show ?thesis by (auto dest: nidx_lt)
qed

lemma cut_snoc: "snd b \<le> length rs \<Longrightarrow> cut_rows (rs @ [r]) b = cut_rows rs b"
  by (simp add: cut_rows_def)

lemma bnds_snoc_null:
  "list_all isnull r \<Longrightarrow> bnds (rs @ [r]) = bnds rs @ [(length rs, Suc (length rs))]"
  by (simp add: bnds_def nidx_snoc zip_shift_snoc)

lemma bnds_snoc_data:
  "\<not> list_all isnull r \<Longrightarrow>
   bnds (rs @ [r]) = butlast (bnds rs) @ [(last (0 # nidx rs), Suc (length rs))]"
  using zip_shift_last[of 0 "nidx rs" "Suc (length rs)" "length rs"]
  by (simp add: bnds_def nidx_snoc)

lemma last_zip_shift: "last (zip (a # xs) (xs @ [n])) = (last (a # xs), n)"
  by (induction xs arbitrary: a) auto

lemma bnds_last: "last (bnds rs) = (last (0 # nidx rs), length rs)"
  unfolding bnds_def by (rule last_zip_shift)

lemma bnds_nonempty: "bnds rs \<noteq> []"
  by (simp add: bnds_def)

lemma cuts_snoc_null:
  assumes "list_all isnull r"
  shows "cuts (rs @ [r]) = cuts rs @ [[r]]"
proof -
  have "map (cut_rows (rs @ [r])) (bnds rs) = map (cut_rows rs) (bnds rs)"
    by (rule map_cong) (simp_all add: cut_snoc bnds_snd_le)
  moreover have "cut_rows (rs @ [r]) (length rs, Suc (length rs)) = [r]"
    by (simp add: cut_rows_def)
  ultimately show ?thesis
    using assms by (simp add: cuts_def bnds_snoc_null)
qed

lemma last_idx_le: "last (0 # nidx rs) \<le> length rs"
proof (cases "nidx rs = []")
  case True
  then show ?thesis by simp
next
  case False
  then show ?thesis
    using nidx_lt[of "last (nidx rs)" rs] by simp
qed

lemma cuts_snoc_data:
  assumes "\<not> list_all isnull r"
  shows "cuts (rs @ [r]) = butlast (cuts rs) @ [last (cuts rs) @ [r]]"
proof -
  let ?l = "last (0 # nidx rs)"
  have a: "map (cut_rows (rs @ [r])) (butlast (bnds rs)) = map (cut_rows rs) (butlast (bnds rs))"
  proof (rule map_cong)
    fix b assume "b \<in> set (butlast (bnds rs))"
    then have "snd b \<le> length rs" by (simp add: bnds_snd_le in_set_butlastD)
    then show "cut_rows (rs @ [r]) b = cut_rows rs b" by (rule cut_snoc)
  qed simp
  have b: "cut_rows (rs @ [r]) (?l, Suc (length rs)) = cut_rows rs (?l, length rs) @ [r]"
    using last_idx_le[of rs] by (simp add: cut_rows_def Suc_diff_le)
  have c: "last (cuts rs) = cut_rows rs (?l, length rs)"
    by (simp add: cuts_def last_map bnds_nonempty bnds_last)
  show ?thesis
    using assms a b c by (simp add: cuts_def bnds_snoc_data map_butlast)
qed

lemma cuts_nonempty: "cuts rs \<noteq> []"
  by (simp add: cuts_def bnds_nonempty)

lemma cuts_Nil: "cuts [] = [[]]"
  by (simp add: cuts_def bnds_def nidx_def cut_rows_def)

lemma shaped_snoc_null: "shaped bs \<Longrightarrow> list_all isnull r \<Longrightarrow> shaped (bs @ [[r]])"
  by (cases bs) (auto simp: shaped_def)

lemma shaped_snoc_data:
  assumes s: "shaped bs" and r: "\<not> list_all isnull r"
  shows "shaped (butlast bs @ [last bs @ [r]])"
proof (cases "tl bs = []")
  case True
  with s have "bs = [hd bs]"
    by (cases bs) (simp_all add: shaped_def)
  then have e: "butlast bs @ [last bs @ [r]] = [hd bs @ [r]]"
    by (metis append_Nil butlast.simps(2) last.simps)
  from s have "\<forall>x \<in> set (hd bs). \<not> list_all isnull x"
    by (simp add: shaped_def)
  with r show ?thesis
    unfolding e shaped_def by simp
next
  case False
  from s have ne: "bs \<noteq> []" by (simp add: shaped_def)
  let ?t = "tl bs"
  have bs: "bs = hd bs # ?t" using ne by simp
  have e: "butlast bs @ [last bs @ [r]] = hd bs # (butlast ?t @ [last ?t @ [r]])"
    using False by (subst (1 2) bs) simp
  from s have h: "\<forall>x \<in> set (hd bs). \<not> list_all isnull x"
    by (simp add: shaped_def)
  from s have t: "\<forall>b \<in> set ?t.
      b \<noteq> [] \<and> list_all isnull (hd b) \<and> (\<forall>x \<in> set (tl b). \<not> list_all isnull x)"
    by (simp add: shaped_def)
  have l: "last ?t \<in> set ?t" using False by simp
  have "\<forall>b \<in> set (butlast ?t @ [last ?t @ [r]]).
      b \<noteq> [] \<and> list_all isnull (hd b) \<and> (\<forall>x \<in> set (tl b). \<not> list_all isnull x)"
  proof
    fix b assume "b \<in> set (butlast ?t @ [last ?t @ [r]])"
    then consider "b \<in> set (butlast ?t)" | "b = last ?t @ [r]" by auto
    then show "b \<noteq> [] \<and> list_all isnull (hd b) \<and> (\<forall>x \<in> set (tl b). \<not> list_all isnull x)"
    proof cases
      case 1
      then have "b \<in> set ?t" by (rule in_set_butlastD)
      with t show ?thesis by blast
    next
      case 2
      from t l have p: "last ?t \<noteq> []" "list_all isnull (hd (last ?t))"
        "\<forall>x \<in> set (tl (last ?t)). \<not> list_all isnull x" by blast+
      from p(1) have "hd b = hd (last ?t)" "tl b = tl (last ?t) @ [r]"
        unfolding 2 by simp_all
      with p r show ?thesis unfolding 2 by simp
    qed
  qed
  with h show ?thesis
    unfolding e shaped_def by simp
qed

lemma cuts_shaped: "shaped (cuts rs)"
proof (induction rs rule: rev_induct)
  case Nil
  show ?case by (simp add: cuts_Nil shaped_def)
next
  case (snoc r rs)
  then show ?case
    by (cases "list_all isnull r")
       (simp_all add: cuts_snoc_null cuts_snoc_data shaped_snoc_null shaped_snoc_data)
qed

lemma concat_cuts: "concat (cuts rs) = rs"
proof (induction rs rule: rev_induct)
  case Nil
  show ?case by (simp add: cuts_Nil)
next
  case (snoc r rs)
  have "concat (butlast (cuts rs) @ [last (cuts rs)]) = rs"
    using snoc cuts_nonempty[of rs] by simp
  then show ?case using snoc
    by (cases "list_all isnull r") (simp_all add: cuts_snoc_null cuts_snoc_data)
qed

lemma rows_blocks: "map rows (blocks df) = cuts (rows df)"
  by (simp add: blocks_def cuts_def bounds_def bnds_def null_idx_def nidx_def cut_rows_def
      iloc_rows_def case_prod_beta)

lemma length_bounds: "length (bounds df) = Suc (length (null_idx df))"
  by (simp add: bounds_def)

text \<open>
  C1, as the code has it: on a grid of zero rows the loop of \<open>parse_dirty_dataframe\<close>
  visits one block, the empty row range from 0 to 0 (the grid itself), not zero blocks.
\<close>

theorem empty_grid_one_block:
  "rows df = [] \<Longrightarrow> bounds df = [(0, 0)] \<and> blocks df = [df]"
  by (simp add: blocks_def bounds_def null_idx_def iloc_rows_def)

theorem empty_grid_one_block_witness:
  "rows \<lparr>columns = [Num 0, Num 1, Num 2, Num 3], rows = []\<rparr> = [] \<and>
   bounds \<lparr>columns = [Num 0, Num 1, Num 2, Num 3], rows = []\<rparr> = [(0, 0)] \<and>
   blocks \<lparr>columns = [Num 0, Num 1, Num 2, Num 3], rows = []\<rparr>
     = [\<lparr>columns = [Num 0, Num 1, Num 2, Num 3], rows = []\<rparr>]"
  using empty_grid_one_block [of "\<lparr>columns = [Num 0, Num 1, Num 2, Num 3], rows = []\<rparr>"]
  by simp

text \<open>
  C1 as the claim states it fails: the grid of four columns and zero rows gives a
  sequence of one block.
\<close>

theorem empty_grid_counterexample:
  "length (blocks \<lparr>columns = [Num 0, Num 1, Num 2, Num 3], rows = []\<rparr>) = 1 \<and>
   blocks \<lparr>columns = [Num 0, Num 1, Num 2, Num 3], rows = []\<rparr> \<noteq> []"
  by (simp add: blocks_def bounds_def null_idx_def)

text \<open>
  C2, as the code has it: the blocks are the grid cut before each fully-empty row. Their
  rows, put one after the other, are the rows of the grid, with no separator row to
  insert again; there is one block more than there are fully-empty rows; no row of the
  first block is fully empty; every later block starts with its fully-empty separator row
  and has no other fully-empty row.
\<close>

theorem blocks_cut_before_separators:
  "concat (map rows (blocks df)) = rows df \<and>
   length (blocks df) = Suc (length (null_idx df)) \<and>
   (\<forall>r \<in> set (rows (hd (blocks df))). \<not> list_all isnull r) \<and>
   (\<forall>b \<in> set (tl (blocks df)).
      rows b \<noteq> [] \<and> list_all isnull (hd (rows b)) \<and>
      (\<forall>r \<in> set (tl (rows b)). \<not> list_all isnull r))"
proof -
  have c: "concat (map rows (blocks df)) = rows df"
    by (simp add: rows_blocks concat_cuts)
  have n: "blocks df \<noteq> []"
    using cuts_nonempty[of "rows df"] by (simp add: rows_blocks[symmetric])
  have s: "shaped (map rows (blocks df))"
    by (simp add: rows_blocks cuts_shaped)
  have h: "\<forall>r \<in> set (rows (hd (blocks df))). \<not> list_all isnull r"
    using s n by (simp add: shaped_def hd_map)
  have t: "\<forall>b \<in> set (tl (blocks df)).
      rows b \<noteq> [] \<and> list_all isnull (hd (rows b)) \<and>
      (\<forall>r \<in> set (tl (rows b)). \<not> list_all isnull r)"
    using s by (simp add: shaped_def map_tl[symmetric])
  have l: "length (blocks df) = Suc (length (null_idx df))"
    by (simp add: blocks_def length_bounds)
  from c l h t show ?thesis by blast
qed

theorem blocks_cut_before_separators_witness:
  "tl (blocks grid_two_blocks)
     = [\<lparr>columns = [Num 0, Num 1], rows = [[Null, Null], [Text ''b'', Null]]\<rparr>] \<and>
   rows (hd (blocks grid_two_blocks)) = [[Text ''a'', Null]] \<and>
   \<not> list_all isnull [Text ''a'', Null] \<and>
   list_all isnull [Null, Null] \<and>
   \<not> list_all isnull [Text ''b'', Null] \<and>
   concat (map rows (blocks grid_two_blocks)) = rows grid_two_blocks \<and>
   length (blocks grid_two_blocks) = Suc (length (null_idx grid_two_blocks))"
proof -
  have e: "blocks grid_two_blocks =
     [\<lparr>columns = [Num 0, Num 1], rows = [[Text ''a'', Null]]\<rparr>,
      \<lparr>columns = [Num 0, Num 1], rows = [[Null, Null], [Text ''b'', Null]]\<rparr>]"
    by code_simp
  have a: "tl (blocks grid_two_blocks)
     = [\<lparr>columns = [Num 0, Num 1], rows = [[Null, Null], [Text ''b'', Null]]\<rparr>]"
    by (simp add: e)
  have b: "rows (hd (blocks grid_two_blocks)) = [[Text ''a'', Null]]"
    by (simp add: e)
  note t = blocks_cut_before_separators [of grid_two_blocks]
  from t have "\<forall>r \<in> set (rows (hd (blocks grid_two_blocks))). \<not> list_all isnull r"
    by blast
  then have h: "\<not> list_all isnull [Text ''a'', Null]"
    unfolding b by (simp add: isnull_def)
  from t have "\<forall>b \<in> set (tl (blocks grid_two_blocks)).
      rows b \<noteq> [] \<and> list_all isnull (hd (rows b)) \<and>
      (\<forall>r \<in> set (tl (rows b)). \<not> list_all isnull r)"
    by blast
  then have s: "list_all isnull [Null, Null]" "\<not> list_all isnull [Text ''b'', Null]"
    unfolding a by (simp_all add: isnull_def)
  from t have c: "concat (map rows (blocks grid_two_blocks)) = rows grid_two_blocks"
    and l: "length (blocks grid_two_blocks) = Suc (length (null_idx grid_two_blocks))"
    by blast+
  from a b h s c l show ?thesis by blast
qed

text \<open>
  C2 as the claim states it fails: in the grid of three rows whose second row is fully
  empty, the second block holds that separator row, and the row counts of the blocks with
  the separator rows added again exceed the row count of the grid.
\<close>

theorem separator_in_block_counterexample:
  "list_all isnull (rows grid_two_blocks ! 1) \<and>
   rows (blocks grid_two_blocks ! 1) = [rows grid_two_blocks ! 1, rows grid_two_blocks ! 2] \<and>
   length (concat (map rows (blocks grid_two_blocks))) + length (null_idx grid_two_blocks)
     \<noteq> length (rows grid_two_blocks)"
  by code_simp

section \<open>Identifier resolution in preprocess\_de2\<close>










section \<open>preprocess\_def: files without values\<close>

lemma mapM_const:
  "\<forall>x \<in> set xs. f x = Inr v \<Longrightarrow> mapM f xs = Inr (replicate (length xs) v)"
  by (induction xs) simp_all

text \<open>
  C10, as the code has it: when the file exists, is read into three columns, and every
  cell of its value column becomes NaN under \<open>astype(float)\<close>, \<open>extract_file\<close>
  returns the frame of no rows with the columns \<open>date\<close>, \<open>q\<close>, \<open>flag\<close>. Nothing is
  asked of the flag cells: the flag column is not looked at.
\<close>

theorem all_nan_gives_empty_frame:
  assumes "exists (csv_path n base_path)"
    and "read_csv (csv_path n base_path) = Inr df"
    and "length (columns df) = 3"
    and "\<forall>r \<in> set (rows df). astype_float pyfloat (cell_at r 1) = Inr NaN"
  shows "extract_file_def exists read_csv pyfloat n base_path
           = Inr (empty_frame [''date'', ''q'', ''flag'']) \<and>
         col_names (empty_frame [''date'', ''q'', ''flag'']) = [''date'', ''q'', ''flag''] \<and>
         nrows (empty_frame [''date'', ''q'', ''flag'']) = 0"
proof -
  have "mapM (astype_float pyfloat) (map (\<lambda>r. cell_at r 1) (rows df))
          = Inr (replicate (length (map (\<lambda>r. cell_at r 1) (rows df))) NaN)"
    using assms(4) by (intro mapM_const) simp
  then have "extract_file_def exists read_csv pyfloat n base_path
           = Inr (empty_frame [''date'', ''q'', ''flag''])"
    using assms(1-3) by (simp add: extract_file_def_def bnd_def list_all_iff)
  then show ?thesis
    by (simp add: empty_frame_def col_names_def nrows_def)
qed

theorem all_nan_gives_empty_frame_witness:
  "extract_file_def (\<lambda>p. p = ''/data/Q/114614.csv'') (\<lambda>p. Inr frame_all_nan)
      (\<lambda>s. if s = ''nan'' then Some NaN else None) (NrStr ''114.614'') ''/data''
     = Inr (empty_frame [''date'', ''q'', ''flag'']) \<and>
   csv_path (NrStr ''114.614'') ''/data'' = ''/data/Q/114614.csv'' \<and>
   mapM flag_def (map (\<lambda>r. cell_at r 2) (rows frame_all_nan)) = Inl AttributeError"
proof -
  have p: "csv_path (NrStr ''114.614'') ''/data'' = ''/data/Q/114614.csv''"
    by code_simp
  have c: "length (columns frame_all_nan) = 3" by code_simp
  have a: "\<forall>r \<in> set (rows frame_all_nan).
      astype_float (\<lambda>s. if s = ''nan'' then Some NaN else None) (cell_at r 1) = Inr NaN"
    by (simp add: frame_all_nan_def astype_float_def cell_at_def)
  have f: "mapM flag_def (map (\<lambda>r. cell_at r 2) (rows frame_all_nan)) = Inl AttributeError"
    by code_simp
  have "extract_file_def (\<lambda>p. p = ''/data/Q/114614.csv'') (\<lambda>p. Inr frame_all_nan)
      (\<lambda>s. if s = ''nan'' then Some NaN else None) (NrStr ''114.614'') ''/data''
     = Inr (empty_frame [''date'', ''q'', ''flag''])"
    using all_nan_gives_empty_frame [of "\<lambda>p. p = ''/data/Q/114614.csv''" "NrStr ''114.614''"
        "''/data''" "\<lambda>p. Inr frame_all_nan" frame_all_nan
        "\<lambda>s. if s = ''nan'' then Some NaN else None"] p c a
    by simp
  with p f show ?thesis by blast
qed

text \<open>
  C10 as the claim states it fails: this file exists and its value column is null in every
  row, but it is read into four columns, and naming three columns raises \<open>ValueError\<close>
  before the value column is looked at.
\<close>

theorem four_columns_counterexample:
  "length (columns frame_four_columns) = 4 \<and>
   mapM (astype_float (\<lambda>s. None)) (map (\<lambda>r. cell_at r 1) (rows frame_four_columns))
     = Inr [NaN, NaN] \<and>
   extract_file_def (\<lambda>p. p = ''/data/Q/114614.csv'') (\<lambda>p. Inr frame_four_columns)
      (\<lambda>s. None) (NrStr ''114614'') ''/data''
     = Inl ValueError"
  by code_simp

section \<open>The fallback of preprocess\_de2\<close>

lemma mapM_map: "mapM f xs = Inr ys \<Longrightarrow> map f xs = map Inr ys"
  by (induction xs arbitrary: ys) (auto split: sum.splits)

lemma kept_rows_filter:
  "map f xs = map Inr ys \<Longrightarrow> kept_rows xs ys = filter (\<lambda>x. f x = Inr False) xs"
  unfolding kept_rows_def
  by (induction xs arbitrary: ys) auto

lemma filter_zip_upt:
  "map fst (filter snd (zip [0..<length ys] ys)) = filter (\<lambda>i. ys ! i) [0..<length ys]"
proof (induction ys rule: rev_induct)
  case Nil
  show ?case by simp
next
  case (snoc y ys)
  have "filter (\<lambda>i. (ys @ [y]) ! i) [0..<length ys] = filter (\<lambda>i. ys ! i) [0..<length ys]"
    by (rule filter_cong) (simp_all add: nth_append)
  with snoc show ?case by simp
qed

lemma faulty_positions_nth:
  "faulty_positions fr = map (\<lambda>i. i + 8) (filter (\<lambda>i. fr ! i) [0..<length fr])"
proof -
  have "map (\<lambda>p. fst p + 8) (filter snd (zip [0..<length fr] fr))
      = map (\<lambda>i. i + 8) (map fst (filter snd (zip [0..<length fr] fr)))"
    by simp
  then show ?thesis
    by (simp only: faulty_positions_def filter_zip_upt)
qed

lemma shift_filter_upt:
  "map (\<lambda>i. i + k) (filter (\<lambda>i. Q (i + k)) [0..<m]) = filter Q [k..<m + k]"
proof -
  have "filter Q (map (\<lambda>i. i + k) [0..<m]) = map (\<lambda>i. i + k) (filter (Q \<circ> (\<lambda>i. i + k)) [0..<m])"
    by (rule filter_map)
  then show ?thesis by (simp add: map_add_upt comp_def)
qed

lemma faulty_positions_lines:
  assumes "map f (drop 8 raw) = map Inr fr"
  shows "faulty_positions fr = filter (\<lambda>p. f (raw ! p) = Inr True) [8..<length raw]"
proof -
  have len: "length fr = length raw - 8"
    using assms by (metis length_map length_drop)
  have nth: "fr ! i = (f (raw ! (i + 8)) = Inr True)" if "i < length fr" for i
  proof -
    from that len have i: "i < length (drop 8 raw)" by simp
    have "map f (drop 8 raw) ! i = map Inr fr ! i" using assms by simp
    with i that have "f (drop 8 raw ! i) = Inr (fr ! i)" by simp
    moreover have "drop 8 raw ! i = raw ! (i + 8)"
      using i by (simp add: add.commute)
    ultimately show ?thesis by auto
  qed
  have "filter (\<lambda>i. fr ! i) [0..<length fr]
      = filter (\<lambda>i. f (raw ! (i + 8)) = Inr True) [0..<length fr]"
    by (rule filter_cong) (simp_all add: nth)
  then have "faulty_positions fr
      = filter (\<lambda>p. f (raw ! p) = Inr True) [8..<length fr + 8]"
    using shift_filter_upt [of 8 "\<lambda>p. f (raw ! p) = Inr True" "length fr"]
    by (simp only: faulty_positions_nth)
  moreover have "[8..<length fr + 8] = [8..<length raw]"
    using len by (cases "8 \<le> length raw") simp_all
  ultimately show ?thesis by simp
qed

lemma extract_fallback:
  assumes "get_file_from_zip n z (Some (policy not_exists)) = Inr (Some raw)"
    and "read_csv (drop 8 raw) = Inl ParserError"
  shows "extract_file_de2 read_csv pyfloat strp n variable z not_exists
           = bnd (fallback read_csv pyfloat n raw) (rename_and_build strp n variable)"
  using assms by (simp add: extract_file_de2_def bnd_def)


lemma empty_result_frame:
  "nrows (py_dict [(''date'', []), (v, []), (''flag'', [])]) = 0 \<and>
   (v \<noteq> ''date'' \<and> v \<noteq> ''flag'' \<longrightarrow>
      col_names (py_dict [(''date'', ([] :: val list)), (v, []), (''flag'', [])])
        = [''date'', v, ''flag''])"
  by (simp add: py_dict_def nrows_def col_names_def)

text \<open>
  C6, as the code has it: when the first read raises \<open>ParserError\<close>, \<open>float\<close> accepts
  field 1 of every line after the first eight, and the second read succeeds, then the
  lines read again are the lines whose field 1 is not negative, in order; the positions
  in the warning are the indices, in the whole file and counted from 0, of the lines after
  the first eight whose field 1 is negative; the frame returned is built from the second
  read; and the warnings of the call are that one warning, followed by the warning on
  three columns when the frame read has three.
\<close>

theorem faulty_rows_excluded_and_reported:
  assumes "get_file_from_zip n z (Some (policy not_exists)) = Inr (Some raw)"
    and "read_csv (drop 8 raw) = Inl ParserError"
    and "mapM (faulty pyfloat) (drop 8 raw) = Inr fr"
    and "read_csv (kept_rows (drop 8 raw) fr) = Inr parsed"
  shows "kept_rows (drop 8 raw) fr
           = filter (\<lambda>row. faulty pyfloat row = Inr False) (drop 8 raw) \<and>
         faulty_positions fr
           = filter (\<lambda>p. faulty pyfloat (raw ! p) = Inr True) [8..<length raw] \<and>
         extract_file_de2 read_csv pyfloat strp n variable z not_exists
           = rename_and_build strp n variable (parsed, [FaultyRows n (faulty_positions fr)]) \<and>
         (\<forall>ts ws. extract_file_de2 read_csv pyfloat strp n variable z not_exists = Inr (ts, ws)
            \<longrightarrow> ws = FaultyRows n (faulty_positions fr)
                       # (if length (columns parsed) = 3 then [ThreeColumns n] else []))"
proof -
  have m: "map (faulty pyfloat) (drop 8 raw) = map Inr fr"
    using assms(3) by (rule mapM_map)
  have k: "kept_rows (drop 8 raw) fr
           = filter (\<lambda>row. faulty pyfloat row = Inr False) (drop 8 raw)"
    using m by (rule kept_rows_filter)
  have p: "faulty_positions fr
           = filter (\<lambda>p. faulty pyfloat (raw ! p) = Inr True) [8..<length raw]"
    using m by (rule faulty_positions_lines)
  have f: "fallback read_csv pyfloat n raw = Inr (parsed, [FaultyRows n (faulty_positions fr)])"
    using assms(3,4) by (simp add: fallback_def bnd_def)
  have e: "extract_file_de2 read_csv pyfloat strp n variable z not_exists
           = rename_and_build strp n variable (parsed, [FaultyRows n (faulty_positions fr)])"
    using extract_fallback [of n z not_exists raw read_csv pyfloat strp variable] assms(1,2) f
    by (simp add: bnd_def)
  have w: "\<forall>ts ws. extract_file_de2 read_csv pyfloat strp n variable z not_exists = Inr (ts, ws)
            \<longrightarrow> ws = FaultyRows n (faulty_positions fr)
                       # (if length (columns parsed) = 3 then [ThreeColumns n] else [])"
    unfolding e
    by (auto simp: rename_and_build_def bnd_def split: sum.splits if_splits)
  from k p e w show ?thesis by blast
qed

theorem faulty_rows_excluded_and_reported_witness:
  "read_csv_ex (drop 8 (replicate 8 ''#'' @ [''20200101 5 x'', ''20200102 -5 x y z'', ''20200103 7 x'']))
     = Inl ParserError \<and>
   kept_rows (drop 8 (replicate 8 ''#'' @ [''20200101 5 x'', ''20200102 -5 x y z'', ''20200103 7 x'']))
       [False, True, False]
     = [''20200101 5 x'', ''20200103 7 x''] \<and>
   faulty_positions [False, True, False] = [9] \<and>
   extract_file_de2 read_csv_ex pyfloat_ex strp_ex (NrInt 708) ''W'' archive_negative None
     = Inr ([(''date'', [VDate (OnDate (Date 2020 1 1)), VDate (OnDate (Date 2020 1 3))]),
             (''w'', [VCell (Text ''5''), VCell (Text ''7'')]),
             (''flag'', [VCell Null, VCell Null])],
            [FaultyRows (NrInt 708) [9], ThreeColumns (NrInt 708)])"
proof -
  let ?raw = "replicate 8 ''#'' @ [''20200101 5 x'', ''20200102 -5 x y z'', ''20200103 7 x'']"
  let ?parsed = "\<lparr>columns = [Num 0, Num 1, Num 2],
      rows = [[Text ''20200101'', Text ''5'', Text ''x''], [Text ''20200103'', Text ''7'', Text ''x'']]\<rparr>"
  have g: "get_file_from_zip (NrInt 708) archive_negative (Some (policy None)) = Inr (Some ?raw)"
    by code_simp
  have r: "read_csv_ex (drop 8 ?raw) = Inl ParserError"
    by code_simp
  have f: "mapM (faulty pyfloat_ex) (drop 8 ?raw) = Inr [False, True, False]"
    by code_simp
  have s: "read_csv_ex (kept_rows (drop 8 ?raw) [False, True, False]) = Inr ?parsed"
    by code_simp
  have b: "rename_and_build strp_ex (NrInt 708) ''W''
      (?parsed, [FaultyRows (NrInt 708) (faulty_positions [False, True, False])])
     = Inr ([(''date'', [VDate (OnDate (Date 2020 1 1)), VDate (OnDate (Date 2020 1 3))]),
             (''w'', [VCell (Text ''5''), VCell (Text ''7'')]),
             (''flag'', [VCell Null, VCell Null])],
            [FaultyRows (NrInt 708) [9], ThreeColumns (NrInt 708)])"
    by code_simp
  have k: "kept_rows (drop 8 ?raw) [False, True, False] = [''20200101 5 x'', ''20200103 7 x'']"
    by code_simp
  have p: "faulty_positions [False, True, False] = [9]"
    by code_simp
  note t = faulty_rows_excluded_and_reported [of "NrInt 708" archive_negative None ?raw
      read_csv_ex pyfloat_ex "[False, True, False]" ?parsed strp_ex "''W''"]
  from t g r f s b have "extract_file_de2 read_csv_ex pyfloat_ex strp_ex (NrInt 708) ''W''
      archive_negative None
     = Inr ([(''date'', [VDate (OnDate (Date 2020 1 1)), VDate (OnDate (Date 2020 1 3))]),
             (''w'', [VCell (Text ''5''), VCell (Text ''7'')]),
             (''flag'', [VCell Null, VCell Null])],
            [FaultyRows (NrInt 708) [9], ThreeColumns (NrInt 708)])"
    by simp
  with r k p show ?thesis by blast
qed

text \<open>
  C6 as the claim states it fails: in this file the line at index 8 has the negative value
  \<open>-5\<close> and the first read raises \<open>ParserError\<close>, but the lines left still do not
  parse, and the only warning of the call names the parser failure and no position.
\<close>

theorem positions_not_reported_counterexample:
  "zip_open archive_still_bad ''708.txt''
     = Some (replicate 8 ''#'' @ [''20200101 -5 x'', ''20200102 3 x'', ''20200103 4 x y z'']) \<and>
   faulty pyfloat_ex ''20200101 -5 x'' = Inr True \<and>
   read_csv_ex [''20200101 -5 x'', ''20200102 3 x'', ''20200103 4 x y z''] = Inl ParserError \<and>
   extract_file_de2 read_csv_ex pyfloat_ex strp_ex (NrInt 708) ''W'' archive_still_bad None
     = Inr ([(''date'', []), (''w'', []), (''flag'', [])],
            [ParserFailed (NrInt 708) ParserError])"
  by code_simp


text \<open>
  The other outcome of the fallback: when the first read raises \<open>ParserError\<close>, the
  list of faulty rows is computed, and the second read raises any exception \<open>e\<close>, then
  \<open>extract_file\<close> gives the one warning that names the station and \<open>e\<close>, with no
  position in it, and returns the frame of no rows built from the columns \<open>date\<close>, the
  variable in lower case, and \<open>flag\<close>.
\<close>

lemma fallback_failure_gives_empty_series:
  assumes "get_file_from_zip n z (Some (policy not_exists)) = Inr (Some raw)"
    and "read_csv (drop 8 raw) = Inl ParserError"
    and "mapM (faulty pyfloat) (drop 8 raw) = Inr fr"
    and "read_csv (kept_rows (drop 8 raw) fr) = Inl e"
  shows "extract_file_de2 read_csv pyfloat strp n variable z not_exists
           = Inr (py_dict [(''date'', []), (lower variable, []), (''flag'', [])],
                  [ParserFailed n e]) \<and>
         nrows (py_dict [(''date'', []), (lower variable, []), (''flag'', [])]) = 0 \<and>
         (lower variable \<noteq> ''date'' \<and> lower variable \<noteq> ''flag'' \<longrightarrow>
            col_names (py_dict [(''date'', ([] :: val list)), (lower variable, []), (''flag'', [])])
              = [''date'', lower variable, ''flag''])"
proof -
  have f: "fallback read_csv pyfloat n raw
      = Inr (\<lparr>columns = [Text ''x1'', Text ''x2'', Text ''x3'', Text ''x4''], rows = []\<rparr>,
             [ParserFailed n e])"
    using assms(3,4) by (simp add: fallback_def bnd_def)
  have "extract_file_de2 read_csv pyfloat strp n variable z not_exists
      = rename_and_build strp n variable
          (\<lparr>columns = [Text ''x1'', Text ''x2'', Text ''x3'', Text ''x4''], rows = []\<rparr>,
           [ParserFailed n e])"
    using extract_fallback [of n z not_exists raw read_csv pyfloat strp variable] assms(1,2) f
    by (simp add: bnd_def)
  then have "extract_file_de2 read_csv pyfloat strp n variable z not_exists
      = Inr (py_dict [(''date'', []), (lower variable, []), (''flag'', [])], [ParserFailed n e])"
    by (simp add: rename_and_build_def bnd_def)
  with empty_result_frame [of "lower variable"] show ?thesis by blast
qed

lemma fallback_failure_gives_empty_series_example:
  "read_csv_ex [''20200101 -5 x'', ''20200102 3 x'', ''20200103 4 x y z''] = Inl ParserError \<and>
   mapM (faulty pyfloat_ex) [''20200101 -5 x'', ''20200102 3 x'', ''20200103 4 x y z'']
     = Inr [True, False, False] \<and>
   read_csv_ex [''20200102 3 x'', ''20200103 4 x y z''] = Inl ParserError \<and>
   extract_file_de2 read_csv_ex pyfloat_ex strp_ex (NrInt 708) ''W'' archive_still_bad
       (Some ''fill_nan'')
     = Inr ([(''date'', []), (''w'', []), (''flag'', [])], [ParserFailed (NrInt 708) ParserError]) \<and>
   nrows [(''date'', []), (''w'', ([] :: val list)), (''flag'', [])] = 0 \<and>
   col_names [(''date'', []), (''w'', ([] :: val list)), (''flag'', [])] = [''date'', ''w'', ''flag'']"
proof -
  let ?raw = "replicate 8 ''#'' @ [''20200101 -5 x'', ''20200102 3 x'', ''20200103 4 x y z'']"
  have g: "get_file_from_zip (NrInt 708) archive_still_bad (Some (policy (Some ''fill_nan'')))
      = Inr (Some ?raw)"
    by code_simp
  have d: "drop 8 ?raw = [''20200101 -5 x'', ''20200102 3 x'', ''20200103 4 x y z'']"
    by simp
  have r: "read_csv_ex [''20200101 -5 x'', ''20200102 3 x'', ''20200103 4 x y z''] = Inl ParserError"
    by code_simp
  have f: "mapM (faulty pyfloat_ex) [''20200101 -5 x'', ''20200102 3 x'', ''20200103 4 x y z'']
      = Inr [True, False, False]"
    by code_simp
  have k: "kept_rows [''20200101 -5 x'', ''20200102 3 x'', ''20200103 4 x y z''] [True, False, False]
      = [''20200102 3 x'', ''20200103 4 x y z'']"
    by code_simp
  have s: "read_csv_ex [''20200102 3 x'', ''20200103 4 x y z''] = Inl ParserError"
    by code_simp
  have l: "lower ''W'' = ''w''" by code_simp
  have p: "py_dict [(''date'', ([] :: val list)), (''w'', []), (''flag'', [])]
      = [(''date'', []), (''w'', []), (''flag'', [])]"
    by (simp add: py_dict_def)
  note t = fallback_failure_gives_empty_series [of "NrInt 708" archive_still_bad
      "Some ''fill_nan''" ?raw read_csv_ex pyfloat_ex "[True, False, False]" ParserError
      strp_ex "''W''"]
  from t g r f s have "extract_file_de2 read_csv_ex pyfloat_ex strp_ex (NrInt 708) ''W''
       archive_still_bad (Some ''fill_nan'')
     = Inr ([(''date'', []), (''w'', []), (''flag'', [])], [ParserFailed (NrInt 708) ParserError]) \<and>
   nrows [(''date'', []), (''w'', ([] :: val list)), (''flag'', [])] = 0 \<and>
   col_names [(''date'', []), (''w'', ([] :: val list)), (''flag'', [])] = [''date'', ''w'', ''flag'']"
    by (simp add: d k l p)
  with r f s show ?thesis by blast
qed

text \<open>
  C7: the claim is that the fallback never lets a parse failure reach the caller. The code
  does not do so on this file. Its first read raises \<open>ParserError\<close> (the second line
  after the header has five fields, the first has three), and field 1 of the first line is
  \<open>12,5\<close>, a number with the decimal comma that both reads are told to expect. The
  handler calls \<open>float\<close> on that field outside its inner \<open>try\<close>, \<open>float\<close> rejects it,
  and the \<open>ValueError\<close> reaches the caller under either policy, where the guarded second
  read would have given a warning and the frame of no rows.
\<close>

theorem fallback_float_raises:
  "zip_open archive_comma ''708.txt''
     = Some (replicate 8 ''#'' @ [''20200101 12,5 x'', ''20200102 -5 x y z'']) \<and>
   read_csv_ex [''20200101 12,5 x'', ''20200102 -5 x y z''] = Inl ParserError \<and>
   pyfloat_ex ''12,5'' = None \<and>
   extract_file_de2 read_csv_ex pyfloat_ex strp_ex (NrInt 708) ''W'' archive_comma None
     = Inl ValueError \<and>
   extract_file_de2 read_csv_ex pyfloat_ex strp_ex (NrInt 708) ''W'' archive_comma
       (Some ''fill_nan'')
     = Inl ValueError"
  by code_simp

section \<open>What \<open>parse_dirty_dataframe\<close> returns\<close>

lemma header_blocks_ge3: "3 \<le> i \<Longrightarrow> header_blocks i block st = Inr st"
  by (simp add: header_blocks_def)

lemma block_step_ge4: "4 \<le> i \<Longrightarrow> block_step pf v sk df i b st = Inr st"
  by (simp add: block_step_def header_blocks_ge3)

lemma run_blocks_ge4: "4 \<le> i \<Longrightarrow> run_blocks pf v sk df i bs st = Inr st"
  by (induction bs arbitrary: i) (simp_all add: block_step_ge4 bnd_def)

lemma step0: "block_step pf v sk df 0 b st = bnd (kv_records (blk df b)) (\<lambda>recs. Inr (upd0 recs st))"
proof -
  have "header_blocks 0 (blk df b) st = bnd (kv_records (blk df b)) (\<lambda>recs. Inr (upd0 recs st))"
    unfolding header_blocks_def upd0_def bnd_def
    by (simp split: sum.splits list.splits option.splits)
  then show ?thesis by (simp add: block_step_def blk_def)
qed

lemma step1: "block_step pf v sk df (Suc 0) b st = bnd (kv_records (blk df b)) (\<lambda>recs. Inr (upd1 recs st))"
proof -
  have "header_blocks (Suc 0) (blk df b) st = bnd (kv_records (blk df b)) (\<lambda>recs. Inr (upd1 recs st))"
    unfolding header_blocks_def upd1_def bnd_def
    by (simp split: sum.splits list.splits)
  then show ?thesis by (simp add: block_step_def blk_def)
qed

lemma step2: "block_step pf v sk df (Suc (Suc 0)) b st = bnd (crs_records (blk df b)) (\<lambda>recs. Inr (upd2 recs st))"
proof -
  have "header_blocks (Suc (Suc 0)) (blk df b) st = bnd (crs_records (blk df b)) (\<lambda>recs. Inr (upd2 recs st))"
    unfolding header_blocks_def upd2_def bnd_def
    by (simp split: sum.splits list.splits)
  then show ?thesis by (simp add: block_step_def blk_def)
qed

lemma step3:
  "block_step pf v sk df (Suc (Suc (Suc 0))) b st =
     (if sk \<or> ID st = None then Inr st
      else bnd (data_block pf v (blk df b)) (\<lambda>d. Inr (st\<lparr>dat := Some d\<rparr>)))"
  by (auto simp: block_step_def blk_def header_blocks_def bnd_def eval_nat_numeral Let_def split: sum.splits)

lemma run_blocks_unroll:
  "run_blocks pf v sk df 0 bs st =
     bnd (if 0 < length bs then block_step pf v sk df 0 (bs ! 0) st else Inr st) (\<lambda>s1.
     bnd (if 1 < length bs then block_step pf v sk df (Suc 0) (bs ! 1) s1 else Inr s1) (\<lambda>s2.
     bnd (if 2 < length bs then block_step pf v sk df (Suc (Suc 0)) (bs ! 2) s2 else Inr s2) (\<lambda>s3.
       if 3 < length bs then block_step pf v sk df (Suc (Suc (Suc 0))) (bs ! 3) s3 else Inr s3)))"
proof -
  consider "bs = []" | b0 where "bs = [b0]" | b0 b1 where "bs = [b0, b1]"
    | b0 b1 b2 where "bs = [b0, b1, b2]"
    | b0 b1 b2 b3 rest where "bs = b0 # b1 # b2 # b3 # rest"
    by (metis list.exhaust)
  then show ?thesis
  proof cases
    case 5
    have r: "run_blocks pf v sk df (Suc (Suc (Suc (Suc 0)))) rest s = Inr s" for s
      by (rule run_blocks_ge4) simp
    show ?thesis unfolding 5
      by (simp add: bnd_def r split: sum.splits)
  qed (simp_all add: bnd_def split: sum.splits)
qed


lemma bounds_nonempty: "0 < length (bounds df)"
  by (simp add: bounds_def)

lemma blocks_nth: "i < length (bounds df) \<Longrightarrow> blocks df ! i = blk df (bounds df ! i)"
  by (simp add: blocks_def blk_def case_prod_beta)




lemma final_dat:
  assumes "run_blocks pf v sk df 0 (bounds df) init_state = Inr st"
  shows "dat st =
     (if \<not> sk \<and> 3 < length (bounds df) \<and> map_of (recovered df 0) (Text ''ID'') \<noteq> None
      then (case data_block pf v (blocks df ! 3) of Inr d \<Rightarrow> Some d | Inl e \<Rightarrow> None)
      else None)"
  using assms bounds_nonempty[of df]
  unfolding run_blocks_unroll step0 step1 step2 step3
  by (auto simp: bnd_def upd0_def upd1_def upd2_def init_state_def recovered_def first_record_def
      blocks_nth split: sum.splits if_splits list.splits option.splits)

lemma run_blocks_returns:
  "(\<exists>st. run_blocks pf v sk df 0 (bounds df) init_state = Inr st) \<longleftrightarrow>
     (\<exists>r. kv_records (blocks df ! 0) = Inr r) \<and>
     (1 < length (bounds df) \<longrightarrow> (\<exists>r. kv_records (blocks df ! 1) = Inr r)) \<and>
     (2 < length (bounds df) \<longrightarrow> (\<exists>r. crs_records (blocks df ! 2) = Inr r)) \<and>
     (3 < length (bounds df) \<and> \<not> sk \<and> map_of (recovered df 0) (Text ''ID'') \<noteq> None \<longrightarrow>
        (\<exists>d. data_block pf v (blocks df ! 3) = Inr d))"
  using bounds_nonempty[of df]
  unfolding run_blocks_unroll step0 step1 step2 step3
  by (auto simp: bnd_def upd0_def upd1_def upd2_def init_state_def recovered_def first_record_def
      blocks_nth split: sum.splits if_splits list.splits option.splits)


lemma find_index_None: "find_index x xs = None \<longleftrightarrow> x \<notin> set xs"
  by (induction xs) auto

lemma set_index_returns: "(\<exists>p. set_index lbl f = Inr p) \<longleftrightarrow> lbl \<in> set (columns f)"
  using find_index_None[of lbl "columns f"]
  by (cases "find_index lbl (columns f)") (auto simp: set_index_def)

lemma columns_dropna_rows: "columns (dropna_rows f) = columns f"
  by (simp add: dropna_rows_def)

lemma kv_records_returns_cols:
  "(\<exists>r. kv_records b = Inr r) \<longleftrightarrow> Num 0 \<in> set (columns (dropna_cols (iloc_cols 2 b)))"
proof -
  have "(\<exists>r. kv_records b = Inr r)
      \<longleftrightarrow> (\<exists>p. set_index (Num 0) (dropna_rows (dropna_cols (iloc_cols 2 b))) = Inr p)"
    by (auto simp: kv_records_def bnd_def split: sum.splits)
  then show ?thesis
    by (simp only: set_index_returns columns_dropna_rows)
qed

lemma columns_dropna_cols:
  "set (columns (dropna_cols f)) = {columns f ! j | j. j < length (columns f) \<and>
      (\<exists>r \<in> set (rows f). \<not> isnull (cell_at r j))}"
  by (auto simp: dropna_cols_def kept_cols_def Let_def list_ex_iff)

lemma cell_at_take: "j < k \<Longrightarrow> cell_at (take k r) j = cell_at r j"
  by (simp add: cell_at_def)

lemma key_col_iloc:
  "Num 0 \<in> set (columns (dropna_cols (iloc_cols 2 b))) \<longleftrightarrow>
     (\<exists>j. j < 2 \<and> has_key_col b j)"
proof
  assume "Num 0 \<in> set (columns (dropna_cols (iloc_cols 2 b)))"
  then have "\<exists>j. Num 0 = columns (iloc_cols 2 b) ! j \<and>
      j < length (columns (iloc_cols 2 b)) \<and>
      (\<exists>r \<in> set (rows (iloc_cols 2 b)). \<not> isnull (cell_at r j))"
    unfolding columns_dropna_cols by simp
  then obtain j where j: "j < length (columns (iloc_cols 2 b))"
      "columns (iloc_cols 2 b) ! j = Num 0"
      "\<exists>r \<in> set (rows (iloc_cols 2 b)). \<not> isnull (cell_at r j)"
    by metis
  from j(1) have j2: "j < 2" "j < length (columns b)" by (simp_all add: iloc_cols_def)
  from j(2) j2 have c: "columns b ! j = Num 0" by (simp add: iloc_cols_def)
  from j(3) obtain r where "r \<in> set (rows b)" "\<not> isnull (cell_at (take 2 r) j)"
    by (auto simp: iloc_cols_def)
  with j2 have "\<exists>r \<in> set (rows b). \<not> isnull (cell_at r j)"
    by (auto simp: cell_at_take)
  with j2 c show "\<exists>j. j < 2 \<and> has_key_col b j"
    by (auto simp: has_key_col_def list_ex_iff)
next
  assume "\<exists>j. j < 2 \<and> has_key_col b j"
  then obtain j r where j: "j < 2" "j < length (columns b)" "columns b ! j = Num 0"
      "r \<in> set (rows b)" "\<not> isnull (cell_at r j)"
    by (auto simp: has_key_col_def list_ex_iff)
  have 1: "j < length (columns (iloc_cols 2 b))" using j by (simp add: iloc_cols_def)
  have 2: "columns (iloc_cols 2 b) ! j = Num 0" using j by (simp add: iloc_cols_def)
  have 3: "take 2 r \<in> set (rows (iloc_cols 2 b))" using j by (simp add: iloc_cols_def)
  have 4: "\<not> isnull (cell_at (take 2 r) j)" using j by (simp add: cell_at_take)
  from 1 2 3 4 show "Num 0 \<in> set (columns (dropna_cols (iloc_cols 2 b)))"
    unfolding columns_dropna_cols by (metis (mono_tags, lifting) mem_Collect_eq)
qed

lemma kv_records_returns: "(\<exists>r. kv_records b = Inr r) \<longleftrightarrow> kv_ok b"
proof -
  have "(\<exists>j. j < 2 \<and> has_key_col b j) \<longleftrightarrow> has_key_col b 0 \<or> has_key_col b 1"
    by (metis less_2_cases_iff One_nat_def)
  then show ?thesis
    by (simp only: kv_records_returns_cols key_col_iloc kv_ok_def)
qed


lemma kept_cols_rows:
  assumes "kept_cols b \<noteq> []"
  shows "rows (dropna_rows (dropna_cols b)) \<noteq> []"
proof -
  from assms obtain j where j: "j \<in> set (kept_cols b)"
    by (cases "kept_cols b") auto
  then obtain r where r: "r \<in> set (rows b)" "\<not> isnull (cell_at r j)"
    by (auto simp: kept_cols_def list_ex_iff)
  from j r(2) have "\<not> list_all isnull (map (cell_at r) (kept_cols b))"
    by (auto simp: list_all_iff)
  with r(1) have "map (cell_at r) (kept_cols b)
      \<in> set (filter (\<lambda>r. \<not> list_all isnull r) (rows (dropna_cols b)))"
    by (auto simp: dropna_cols_def Let_def)
  then show ?thesis
    by (auto simp: dropna_rows_def filter_empty_conv)
qed

lemma crs_records_returns: "(\<exists>r. crs_records b = Inr r) \<longleftrightarrow> crs_ok b"
proof -
  let ?f = "dropna_rows (dropna_cols b)"
  have c: "columns ?f = [] \<longleftrightarrow> kept_cols b = []"
    by (simp add: dropna_rows_def dropna_cols_def Let_def)
  have "(\<exists>r. crs_records b = Inr r) \<longleftrightarrow> rows ?f \<noteq> [] \<and> columns ?f \<noteq> []"
    by (auto simp: crs_records_def set_crs_def header_from_first_row_def bnd_def
        split: list.splits sum.splits if_splits)
  also have "\<dots> \<longleftrightarrow> kept_cols b \<noteq> []"
    using kept_cols_rows[of b] c by blast
  finally show ?thesis by (simp add: crs_ok_def)
qed

lemma mapM_returns: "(\<exists>ys. mapM f xs = Inr ys) \<longleftrightarrow> (\<forall>x \<in> set xs. \<exists>y. f x = Inr y)"
  by (induction xs) (auto split: sum.splits)

lemma date_of_returns: "(\<exists>y. date_of c = Inr y) \<longleftrightarrow> datelike c"
  by (cases c) (simp_all add: date_of_def datelike_def)

lemma astype_float_returns: "(\<exists>y. astype_float pf c = Inr y) \<longleftrightarrow> floatable pf c"
  by (cases c) (auto simp: astype_float_def floatable_def split: option.splits)

lemma flag_of_returns: "(\<exists>y. flag_of c = Inr y) \<longleftrightarrow> is_text c"
  by (cases c) (simp_all add: flag_of_def is_text_def)

lemma iloc_col_returns:
  "iloc_col k f = (if k < length (columns f) then Inr (map (\<lambda>r. cell_at r k) (rows f)) else Inl IndexError)"
  by (simp add: iloc_col_def)

lemma data_block_returns: "(\<exists>d. data_block pf v b = Inr d) \<longleftrightarrow> data_ok pf b"
proof (cases "rows (dropna_cols (dropna_rows b))")
  case Nil
  then show ?thesis
    by (simp add: data_block_def data_ok_def header_from_first_row_def bnd_def)
next
  case (Cons h rs)
  let ?b = "\<lparr>columns = h, rows = rs\<rparr>"
  have hd: "header_from_first_row (dropna_cols (dropna_rows b)) = Inr ?b"
    using Cons by (simp add: header_from_first_row_def)
  have d: "\<exists>y. mapM date_of (map (\<lambda>r. cell_at r 0) rs) = Inr y"
    if "list_all (\<lambda>r. datelike (cell_at r 0)) rs"
    using that by (simp add: mapM_returns date_of_returns list_all_iff)
  have f: "\<exists>y. mapM (astype_float pf) (map (\<lambda>r. cell_at r 1) rs) = Inr y"
    if "list_all (\<lambda>r. floatable pf (cell_at r 1)) rs"
    using that by (simp add: mapM_returns astype_float_returns list_all_iff)
  have g: "\<exists>y. mapM flag_of (map (\<lambda>r. cell_at r 3) rs) = Inr y"
    if "list_all (\<lambda>r. is_text (cell_at r 3)) rs"
    using that by (simp add: mapM_returns flag_of_returns list_all_iff)
  have d': "list_all (\<lambda>r. datelike (cell_at r 0)) rs"
    if "mapM date_of (map (\<lambda>r. cell_at r 0) rs) = Inr y" for y
    using that mapM_returns[of date_of "map (\<lambda>r. cell_at r 0) rs"]
    by (auto simp: date_of_returns list_all_iff)
  have f': "list_all (\<lambda>r. floatable pf (cell_at r 1)) rs"
    if "mapM (astype_float pf) (map (\<lambda>r. cell_at r (Suc 0)) rs) = Inr y" for y
    using that mapM_returns[of "astype_float pf" "map (\<lambda>r. cell_at r (Suc 0)) rs"]
    by (auto simp: astype_float_returns list_all_iff)
  have g': "list_all (\<lambda>r. is_text (cell_at r 3)) rs"
    if "mapM flag_of (map (\<lambda>r. cell_at r 3) rs) = Inr y" for y
    using that mapM_returns[of flag_of "map (\<lambda>r. cell_at r 3) rs"]
    by (auto simp: flag_of_returns list_all_iff)
  have ok: "data_ok pf b \<longleftrightarrow> 4 \<le> length h \<and> list_all (\<lambda>r. datelike (cell_at r 0)) rs
      \<and> list_all (\<lambda>r. floatable pf (cell_at r 1)) rs \<and> list_all (\<lambda>r. is_text (cell_at r 3)) rs"
    using Cons by (auto simp: data_ok_def list_all_iff)
  show ?thesis
  proof
    assume "\<exists>d. data_block pf v b = Inr d"
    then show "data_ok pf b"
      unfolding ok data_block_def hd
      by (auto simp: bnd_def iloc_col_returns dest: d' f' g' split: sum.splits if_splits)
  next
    assume "data_ok pf b"
    then have a: "4 \<le> length h" "list_all (\<lambda>r. datelike (cell_at r 0)) rs"
      "list_all (\<lambda>r. floatable pf (cell_at r 1)) rs" "list_all (\<lambda>r. is_text (cell_at r 3)) rs"
      unfolding ok by simp_all
    from d[OF a(2)] f[OF a(3)] g[OF a(4)] obtain y1 y2 y3 where
      "mapM date_of (map (\<lambda>r. cell_at r 0) rs) = Inr y1"
      "mapM (astype_float pf) (map (\<lambda>r. cell_at r 1) rs) = Inr y2"
      "mapM flag_of (map (\<lambda>r. cell_at r 3) rs) = Inr y3" by blast
    with a(1) show "\<exists>d. data_block pf v b = Inr d"
      unfolding data_block_def hd by (auto simp: bnd_def iloc_col_returns)
  qed
qed


lemma final_warns:
  assumes "run_blocks pf v sk df 0 (bounds df) init_state = Inr st"
  shows "warns st = block_warns df"
  using assms bounds_nonempty[of df]
  unfolding run_blocks_unroll step0 step1 step2 step3 block_warns_def
  by (auto simp: bnd_def upd0_def upd1_def upd2_def init_state_def blocks_def blk_def
      case_prod_beta split: sum.splits if_splits list.splits option.splits)

lemma parse_returns_run:
  "parse_dirty_dataframe pf df v sk = Inr (meta, d, ws) \<longleftrightarrow>
     (\<exists>st. run_blocks pf v sk df 0 (bounds df) init_state = Inr st \<and>
        meta = (if merge_meta (base st) (loc st) (co st) = [] then None
                else Some (merge_meta (base st) (loc st) (co st))) \<and>
        d = dat st \<and> ws = warns st)"
  by (auto simp: parse_dirty_dataframe_def bnd_def Let_def split: sum.splits)

lemma length_blocks: "length (blocks df) = length (bounds df)"
  by (simp add: blocks_def)











text \<open>
  C5: when \<open>parse_dirty_dataframe\<close> returns, it returns a time series exactly when
  \<open>skip_data\<close> is false, the grid has a fourth block, and the dict of block 0 has the
  key \<open>ID\<close>; so no series is returned when block 0 gives no identifier or there is no data
  block.
\<close>

theorem series_only_with_id:
  assumes "parse_dirty_dataframe pf df v sk = Inr (meta, d, ws)"
  shows "(d \<noteq> None \<longleftrightarrow>
            \<not> sk \<and> 3 < length (blocks df) \<and> map_of (recovered df 0) (Text ''ID'') \<noteq> None) \<and>
         (map_of (recovered df 0) (Text ''ID'') = None \<or> length (blocks df) \<le> 3 \<longrightarrow> d = None)"
proof -
  from assms obtain st where st: "run_blocks pf v sk df 0 (bounds df) init_state = Inr st"
    and d: "d = dat st"
    unfolding parse_returns_run by blast
  let ?proc = "\<not> sk \<and> 3 < length (bounds df) \<and> map_of (recovered df 0) (Text ''ID'') \<noteq> None"
  have r: "?proc \<longrightarrow> (\<exists>x. data_block pf v (blocks df ! 3) = Inr x)"
    using st run_blocks_returns[of pf v sk df] by blast
  have "dat st \<noteq> None \<longleftrightarrow> ?proc"
    using final_dat[OF st] r by (auto split: sum.splits)
  then show ?thesis
    by (auto simp: d length_blocks)
qed

lemma extract_returns_run:
  "(\<exists>r. parse_dirty_dataframe pf df v sk = Inr r) \<longleftrightarrow>
      kv_ok (blocks df ! 0) \<and>
      (1 < length (blocks df) \<longrightarrow> kv_ok (blocks df ! 1)) \<and>
      (2 < length (blocks df) \<longrightarrow> crs_ok (blocks df ! 2)) \<and>
      (3 < length (blocks df) \<and> \<not> sk \<and> map_of (recovered df 0) (Text ''ID'') \<noteq> None
         \<longrightarrow> data_ok pf (blocks df ! 3))"
proof -
  have "(\<exists>r. parse_dirty_dataframe pf df v sk = Inr r)
      \<longleftrightarrow> (\<exists>st. run_blocks pf v sk df 0 (bounds df) init_state = Inr st)"
    by (auto simp: parse_dirty_dataframe_def bnd_def Let_def split: sum.splits)
  then show ?thesis
    by (simp only: run_blocks_returns kv_records_returns crs_records_returns
        data_block_returns length_blocks)
qed

text \<open>
  C8, as the code has it: \<open>parse_dirty_dataframe\<close> returns exactly when block 0, and
  block 1 if there is one, has among its first two columns one that is labelled 0 and
  holds a cell that is not null; block 2, if there is one, holds a cell that is not null;
  and, when the data block is processed (there is a fourth block, \<open>skip_data\<close> is false
  and block 0 gave the key \<open>ID\<close>), the data block without its fully-empty rows and
  columns has a first row of at least four cells and, in every later row, a date cell
  that is a datetime or a string, a value cell that \<open>astype(float)\<close> accepts and a flag
  cell that is a string. Otherwise it raises. When it returns, its warnings are those of
  \<open>block_warns\<close>: a header block that yields no record is given a warning and left out.
\<close>

theorem extract_returns_iff:
  "((\<exists>r. parse_dirty_dataframe pf df v sk = Inr r) \<longleftrightarrow>
      kv_ok (blocks df ! 0) \<and>
      (1 < length (blocks df) \<longrightarrow> kv_ok (blocks df ! 1)) \<and>
      (2 < length (blocks df) \<longrightarrow> crs_ok (blocks df ! 2)) \<and>
      (3 < length (blocks df) \<and> \<not> sk \<and> map_of (recovered df 0) (Text ''ID'') \<noteq> None
         \<longrightarrow> data_ok pf (blocks df ! 3))) \<and>
   (\<forall>meta d ws. parse_dirty_dataframe pf df v sk = Inr (meta, d, ws) \<longrightarrow> ws = block_warns df)"
proof -
  have b: "\<forall>meta d ws. parse_dirty_dataframe pf df v sk = Inr (meta, d, ws) \<longrightarrow> ws = block_warns df"
    unfolding parse_returns_run using final_warns by blast
  from extract_returns_run [of pf df v sk] b show ?thesis by blast
qed


theorem series_only_with_id_witness:
  "parse_dirty_dataframe pyfloat_ex grid_well_formed ''Q'' False
     = Inr (Some [(Text ''ID'', Num 123), (Text ''Name'', Text ''Foo''),
                  (Text ''Ort'', Text ''Bar''), (Text ''CRS'', Text ''25833''),
                  (Text ''Ost'', Num 1), (Text ''Nord'', Num 2)],
            Some [(''date'', [VDate (Parsed ''2020-01-01'')]),
                  (''q'', [VFloat (Fin (2769713770832855 / 2251799813685248))]),
                  (''flag'', [VBool False])],
            []) \<and>
   3 < length (blocks grid_well_formed) \<and>
   map_of (recovered grid_well_formed 0) (Text ''ID'') \<noteq> None \<and>
   parse_dirty_dataframe pyfloat_ex grid_collision ''Q'' False
     = Inr (Some [(Text ''ID'', Num 123), (Text ''Name'', Text ''Baz''), (Text ''CRS'', Text ''25833'')],
            None, []) \<and>
   length (blocks grid_collision) = 3"
proof -
  have p: "parse_dirty_dataframe pyfloat_ex grid_well_formed ''Q'' False
     = Inr (Some [(Text ''ID'', Num 123), (Text ''Name'', Text ''Foo''),
                  (Text ''Ort'', Text ''Bar''), (Text ''CRS'', Text ''25833''),
                  (Text ''Ost'', Num 1), (Text ''Nord'', Num 2)],
            Some [(''date'', [VDate (Parsed ''2020-01-01'')]),
                  (''q'', [VFloat (Fin (2769713770832855 / 2251799813685248))]),
                  (''flag'', [VBool False])],
            [])"
    by code_simp
  have q: "parse_dirty_dataframe pyfloat_ex grid_collision ''Q'' False
     = Inr (Some [(Text ''ID'', Num 123), (Text ''Name'', Text ''Baz''), (Text ''CRS'', Text ''25833'')],
            None, [])"
    by code_simp
  have l: "length (blocks grid_collision) = 3" by code_simp
  from series_only_with_id [OF p]
  have "3 < length (blocks grid_well_formed)"
    "map_of (recovered grid_well_formed 0) (Text ''ID'') \<noteq> None"
    by simp_all
  with p q l show ?thesis by blast
qed

theorem extract_returns_iff_witness:
  "kv_ok (blocks grid_well_formed ! 0) \<and> kv_ok (blocks grid_well_formed ! 1) \<and>
   crs_ok (blocks grid_well_formed ! 2) \<and> data_ok pyfloat_ex (blocks grid_well_formed ! 3) \<and>
   (\<exists>r. parse_dirty_dataframe pyfloat_ex grid_well_formed ''Q'' False = Inr r) \<and>
   3 < length (blocks grid_three_data_columns) \<and>
   map_of (recovered grid_three_data_columns 0) (Text ''ID'') = Some (Num 123) \<and>
   \<not> data_ok pyfloat_ex (blocks grid_three_data_columns ! 3) \<and>
   \<not> (\<exists>r. parse_dirty_dataframe pyfloat_ex grid_three_data_columns ''Q'' False = Inr r) \<and>
   block_warns grid_no_metadata = [BadShape 1, BadShape 2, BadShape 3]"
proof -
  have k: "kv_ok (blocks grid_well_formed ! 0)" "kv_ok (blocks grid_well_formed ! 1)"
    "crs_ok (blocks grid_well_formed ! 2)" "data_ok pyfloat_ex (blocks grid_well_formed ! 3)"
    by code_simp+
  have g: "3 < length (blocks grid_three_data_columns)"
    "map_of (recovered grid_three_data_columns 0) (Text ''ID'') = Some (Num 123)"
    "\<not> data_ok pyfloat_ex (blocks grid_three_data_columns ! 3)"
    by code_simp+
  have w: "block_warns grid_no_metadata = [BadShape 1, BadShape 2, BadShape 3]"
    by code_simp
  from extract_returns_iff [of pyfloat_ex grid_well_formed "''Q''" False] k
  have a: "\<exists>r. parse_dirty_dataframe pyfloat_ex grid_well_formed ''Q'' False = Inr r"
    by blast
  from extract_returns_iff [of pyfloat_ex grid_three_data_columns "''Q''" False] g
  have b: "\<not> (\<exists>r. parse_dirty_dataframe pyfloat_ex grid_three_data_columns ''Q'' False = Inr r)"
    by simp
  from k g w a b show ?thesis by blast
qed

text \<open>
  C8 as the claim states it fails: the data block of this grid has three columns that are
  not fully empty, an identifier was found, and \<open>block.iloc[:, 3]\<close> raises
  \<open>IndexError\<close>.
\<close>

theorem data_block_raises_counterexample:
  "parse_dirty_dataframe pyfloat_ex grid_three_data_columns ''Q'' False = Inl IndexError"
  by code_simp


lemma nrows_three:
  "nrows (py_dict [(''date'', [a]), (k, [b]), (''flag'', [c])]) = 1"
  by (simp add: py_dict_def nrows_def)

lemma data_block_one_row:
  assumes "rows (dropna_cols (dropna_rows b)) = [h, [d, x, s, Text t]]"
    and "4 \<le> length h"
    and "date_of d = Inr dd"
    and "astype_float pf x = Inr fx"
  shows "data_block pf v b
      = Inr (py_dict [(''date'', [VDate dd]), (lower v, [VFloat fx]),
                      (''flag'', [VBool (lower (strip t) = geprueft)])])"
proof -
  have hd: "header_from_first_row (dropna_cols (dropna_rows b))
      = Inr \<lparr>columns = h, rows = [[d, x, s, Text t]]\<rparr>"
    using assms(1) by (simp add: header_from_first_row_def)
  show ?thesis
    unfolding data_block_def hd
    using assms(2-4)
    by (auto simp: bnd_def iloc_col_def cell_at_def flag_of_def)
qed

text \<open>
  C3, as the code has it: in a grid of four blocks whose header blocks are read and give
  an identifier, and whose data block is a header row of four cells and one data row, the
  series returned has one row and its flag is the test whether the cell of column 3 (the
  fourth cell), stripped and in lower case, equals the marker; the cell of column 2 plays
  no part. With \<open>x\<close> in column 3 the flag is false, also when column 2 holds the marker;
  the marker in column 3, in any case and between spaces, gives true.
\<close>

theorem flag_from_column_3:
  assumes "length (blocks df) = 4"
    and "kv_ok (blocks df ! 0)" and "kv_ok (blocks df ! 1)" and "crs_ok (blocks df ! 2)"
    and "map_of (recovered df 0) (Text ''ID'') \<noteq> None"
    and "rows (dropna_cols (dropna_rows (blocks df ! 3))) = [h, [d, x, s, Text t]]"
    and "4 \<le> length h"
    and "date_of d = Inr dd"
    and "astype_float pf x = Inr fx"
  shows "(\<exists>meta ws. parse_dirty_dataframe pf df v False
            = Inr (meta,
                   Some (py_dict [(''date'', [VDate dd]), (lower v, [VFloat fx]),
                                  (''flag'', [VBool (lower (strip t) = geprueft)])]),
                   ws)) \<and>
         nrows (py_dict [(''date'', [VDate dd]), (lower v, [VFloat fx]),
                         (''flag'', [VBool (lower (strip t) = geprueft)])]) = 1 \<and>
         lower (strip ''x'') \<noteq> geprueft \<and>
         lower (strip (''  GEPR'' @ [CHR 0xDC] @ ''FT '')) = geprueft"
proof -
  let ?ts = "py_dict [(''date'', [VDate dd]), (lower v, [VFloat fx]),
                      (''flag'', [VBool (lower (strip t) = geprueft)])]"
  have db: "data_block pf v (blocks df ! 3) = Inr ?ts"
    using assms(6-9) by (rule data_block_one_row)
  then have ok: "data_ok pf (blocks df ! 3)"
    using data_block_returns[of pf v "blocks df ! 3"] by blast
  have "\<exists>r. parse_dirty_dataframe pf df v False = Inr r"
    using extract_returns_run ok assms(1-5) by simp
  then obtain meta dt ws where p: "parse_dirty_dataframe pf df v False = Inr (meta, dt, ws)"
    by (metis prod_cases3)
  then obtain st where st: "run_blocks pf v False df 0 (bounds df) init_state = Inr st"
    and dt: "dt = dat st"
    unfolding parse_returns_run by blast
  have "dat st = Some ?ts"
    using final_dat[OF st] db assms(1,5) by (simp add: length_blocks[symmetric])
  with p dt have "parse_dirty_dataframe pf df v False = Inr (meta, Some ?ts, ws)"
    by simp
  then have a: "\<exists>meta ws. parse_dirty_dataframe pf df v False = Inr (meta, Some ?ts, ws)"
    by (intro exI)
  have b: "lower (strip ''x'') \<noteq> geprueft" by code_simp
  have c: "lower (strip (''  GEPR'' @ [CHR 0xDC] @ ''FT '')) = geprueft" by code_simp
  from a b c nrows_three show ?thesis by blast
qed


theorem flag_from_column_3_witness:
  "length (blocks grid_well_formed) = 4 \<and>
   rows (dropna_cols (dropna_rows (blocks grid_well_formed ! 3)))
     = [[Text ''date'', Text ''value'', Text ''status'', Text ''extra''],
        [Text ''2020-01-01'', Text ''1.23'', Text geprueft, Text ''x'']] \<and>
   map_of (recovered grid_well_formed 0) (Text ''ID'') = Some (Num 123) \<and>
   (\<exists>meta ws. parse_dirty_dataframe pyfloat_ex grid_well_formed ''Q'' False
      = Inr (meta,
             Some [(''date'', [VDate (Parsed ''2020-01-01'')]),
                   (''q'', [VFloat (Fin (2769713770832855 / 2251799813685248))]),
                   (''flag'', [VBool False])],
             ws))"
proof -
  have l: "length (blocks grid_well_formed) = 4" by code_simp
  have k: "kv_ok (blocks grid_well_formed ! 0)" "kv_ok (blocks grid_well_formed ! 1)"
    "crs_ok (blocks grid_well_formed ! 2)"
    by code_simp+
  have i: "map_of (recovered grid_well_formed 0) (Text ''ID'') = Some (Num 123)"
    by code_simp
  have r: "rows (dropna_cols (dropna_rows (blocks grid_well_formed ! 3)))
     = [[Text ''date'', Text ''value'', Text ''status'', Text ''extra''],
        [Text ''2020-01-01'', Text ''1.23'', Text geprueft, Text ''x'']]"
    by code_simp
  have d: "date_of (Text ''2020-01-01'') = Inr (Parsed ''2020-01-01'')"
    by (simp add: date_of_def)
  have x: "astype_float pyfloat_ex (Text ''1.23'')
      = Inr (Fin (2769713770832855 / 2251799813685248))"
    by (simp add: astype_float_def pyfloat_ex_def)
  have f: "(lower (strip ''x'') = geprueft) = False" by code_simp
  have q: "py_dict [(''date'', [VDate (Parsed ''2020-01-01'')]),
                    (lower ''Q'', [VFloat (Fin (2769713770832855 / 2251799813685248))]),
                    (''flag'', [VBool False])]
      = [(''date'', [VDate (Parsed ''2020-01-01'')]),
         (''q'', [VFloat (Fin (2769713770832855 / 2251799813685248))]),
         (''flag'', [VBool False])]"
    by code_simp
  note t = flag_from_column_3 [of grid_well_formed
      "[Text ''date'', Text ''value'', Text ''status'', Text ''extra'']"
      "Text ''2020-01-01''" "Text ''1.23''" "Text geprueft" "''x''"
      "Parsed ''2020-01-01''" pyfloat_ex "Fin (2769713770832855 / 2251799813685248)" "''Q''"]
  have i': "map_of (recovered grid_well_formed 0) (Text ''ID'') \<noteq> None"
    using i by simp
  have h: "4 \<le> length [Text ''date'', Text ''value'', Text ''status'', Text ''extra'']"
    by simp
  from t [OF l k(1) k(2) k(3) i' r h d x]
  have "\<exists>meta ws. parse_dirty_dataframe pyfloat_ex grid_well_formed ''Q'' False
      = Inr (meta,
             Some (py_dict [(''date'', [VDate (Parsed ''2020-01-01'')]),
                    (lower ''Q'', [VFloat (Fin (2769713770832855 / 2251799813685248))]),
                    (''flag'', [VBool (lower (strip ''x'') = geprueft)])]),
             ws)"
    by (rule conjunct1)
  then have "\<exists>meta ws. parse_dirty_dataframe pyfloat_ex grid_well_formed ''Q'' False
      = Inr (meta,
             Some [(''date'', [VDate (Parsed ''2020-01-01'')]),
                   (''q'', [VFloat (Fin (2769713770832855 / 2251799813685248))]),
                   (''flag'', [VBool False])],
             ws)"
    unfolding f q .
  with l r i show ?thesis by blast
qed

text \<open>
  C3 as the claim states it fails: for the grid of four blocks with the header row
  \<open>date, value, status, extra\<close> and the data row \<open>2020-01-01, 1.23\<close>, the marker,
  \<open>x\<close>, the one row returned has the flag false.
\<close>

theorem flag_true_counterexample:
  "parse_dirty_dataframe pyfloat_ex grid_well_formed ''Q'' False
     = Inr (Some [(Text ''ID'', Num 123), (Text ''Name'', Text ''Foo''),
                  (Text ''Ort'', Text ''Bar''), (Text ''CRS'', Text ''25833''),
                  (Text ''Ost'', Num 1), (Text ''Nord'', Num 2)],
            Some [(''date'', [VDate (Parsed ''2020-01-01'')]),
                  (''q'', [VFloat (Fin (2769713770832855 / 2251799813685248))]),
                  (''flag'', [VBool False])],
            [])"
  by code_simp

end
